theory Spec2Isabelle
  imports Main "HOL-Library.Char_ord"
begin

section \<open>JavaScript strings\<close>

text \<open>
  The sources are TypeScript. A JavaScript string is modelled as a \<^typ>\<open>string\<close>: one
  \<^typ>\<open>char\<close> per code unit, for the code units below 256 (ASCII and Latin-1). The
  definitions of this section are the \<^verbatim>\<open>String.prototype\<close> methods the scanner and the
  parsers call, each named after its method.
\<close>

text \<open>\<^verbatim>\<open>s.startsWith(p)\<close>\<close>

fun startsWith :: "string \<Rightarrow> string \<Rightarrow> bool" where
  "startsWith s [] = True"
| "startsWith [] (p # ps) = False"
| "startsWith (c # cs) (p # ps) = (c = p \<and> startsWith cs ps)"

text \<open>\<^verbatim>\<open>s.endsWith(p)\<close>\<close>

definition endsWith :: "string \<Rightarrow> string \<Rightarrow> bool" where
  "endsWith s p = startsWith (rev s) (rev p)"

text \<open>\<^verbatim>\<open>s.includes(p)\<close>: \<open>p\<close> occurs in \<open>s\<close> at some position.\<close>

fun str_includes :: "string \<Rightarrow> string \<Rightarrow> bool" where
  "str_includes [] p = (p = [])"
| "str_includes (c # cs) p = (startsWith (c # cs) p \<or> str_includes cs p)"

text \<open>
  \<^verbatim>\<open>s.split(sep)\<close> for a separator of one character: the pieces between the separators,
  so always at least one piece (\<^verbatim>\<open>"".split("\n")\<close> is \<^verbatim>\<open>[""]\<close>).
\<close>

fun split :: "char \<Rightarrow> string \<Rightarrow> string list" where
  "split sep [] = [[]]"
| "split sep (c # cs) =
     (if c = sep then [] # split sep cs
      else (case split sep cs of
              [] \<Rightarrow> [[c]]
            | l # ls \<Rightarrow> (c # l) # ls))"

text \<open>
  White space and line terminators of ECMAScript (what \<^verbatim>\<open>trim\<close> strips and what the
  regular expression class \<^verbatim>\<open>\s\<close> matches), among the code units below 256: tab, line
  feed, vertical tab, form feed, carriage return, space and no-break space.
\<close>

definition isWhiteSpace :: "char \<Rightarrow> bool" where
  "isWhiteSpace c \<longleftrightarrow> c \<in> set [CHR 0x09, CHR 0x0A, CHR 0x0B, CHR 0x0C, CHR 0x0D, CHR 0x20, CHR 0xA0]"

text \<open>Line terminators, which the regular expression \<^verbatim>\<open>.\<close> does not match.\<close>

definition isLineTerminator :: "char \<Rightarrow> bool" where
  "isLineTerminator c \<longleftrightarrow> c = CHR 0x0A \<or> c = CHR 0x0D"

text \<open>\<^verbatim>\<open>s.trim()\<close>\<close>

definition trim :: "string \<Rightarrow> string" where
  "trim s = rev (dropWhile isWhiteSpace (rev (dropWhile isWhiteSpace s)))"

text \<open>\<^verbatim>\<open>s.substring(1)\<close> and \<^verbatim>\<open>s.slice(1, -1)\<close>\<close>

definition substring1 :: "string \<Rightarrow> string" where
  "substring1 s = drop 1 s"

definition slice_1_m1 :: "string \<Rightarrow> string" where
  "slice_1_m1 s = butlast (drop 1 s)"

text \<open>
  \<^verbatim>\<open>s.toLowerCase()\<close>: the letters A to Z, and the capital letters of Latin-1 (0xC0 to
  0xDE but the multiplication sign 0xD7), move 32 code units up.
\<close>

definition toLowerChar :: "char \<Rightarrow> char" where
  "toLowerChar c =
     (let n = of_char c :: nat in
      if (65 \<le> n \<and> n \<le> 90) \<or> (192 \<le> n \<and> n \<le> 222 \<and> n \<noteq> 215)
      then char_of (n + 32) else c)"

definition toLowerCase :: "string \<Rightarrow> string" where
  "toLowerCase s = map toLowerChar s"

text \<open>
  A non-negative integer in a template literal (\<^verbatim>\<open>`${n}`\<close>): its decimal digits.
\<close>

fun decimal :: "nat \<Rightarrow> string" where
  "decimal n =
     (if n < 10 then [char_of (48 + n)]
      else decimal (n div 10) @ [char_of (48 + n mod 10)])"

declare decimal.simps [simp del]

section \<open>Regular expressions\<close>

text \<open>
  The regular expressions of the sources are built from single-character atoms, the
  greedy quantifiers \<^verbatim>\<open>*\<close> and \<^verbatim>\<open>+\<close> on an atom, optional and capturing groups, one
  alternation and the assertions \<^verbatim>\<open>^\<close> and \<^verbatim>\<open>$\<close>. None has a flag but \<^verbatim>\<open>g\<close> (in
  \<^verbatim>\<open>replace\<close> only), so matching is case-sensitive, \<^verbatim>\<open>^\<close> and \<^verbatim>\<open>$\<close> stand for the ends
  of the input, and \<^verbatim>\<open>.\<close> matches every character but a line terminator.
\<close>

datatype cset =
    Ch char             \<comment> \<open>the character itself\<close>
  | Rng char char       \<comment> \<open>a range \<^verbatim>\<open>a-z\<close> of a class\<close>
  | Space               \<comment> \<open>\<^verbatim>\<open>\s\<close>\<close>
  | Word                \<comment> \<open>\<^verbatim>\<open>\w\<close>\<close>
  | Digit               \<comment> \<open>\<^verbatim>\<open>\d\<close>\<close>

datatype atom =
    Dot                 \<comment> \<open>\<^verbatim>\<open>.\<close>\<close>
  | Is cset             \<comment> \<open>a pattern character or a class escape\<close>
  | In "cset list"      \<comment> \<open>a class \<^verbatim>\<open>[...]\<close>\<close>
  | NotIn "cset list"   \<comment> \<open>a negated class \<^verbatim>\<open>[^...]\<close>\<close>

datatype node =
    Atom atom
  | Star atom                       \<comment> \<open>\<^verbatim>\<open>a*\<close>\<close>
  | Plus atom                       \<comment> \<open>\<^verbatim>\<open>a+\<close>\<close>
  | Opt "node list"                 \<comment> \<open>\<^verbatim>\<open>(?:r)?\<close>\<close>
  | Alt "node list" "node list"     \<comment> \<open>\<^verbatim>\<open>(?:r|s)\<close>\<close>
  | Grp nat "node list"             \<comment> \<open>the capturing group of that number\<close>
  | GrpEnd nat string               \<comment> \<open>the end of a group that was entered at that rest of the input\<close>
  | Bol                             \<comment> \<open>\<^verbatim>\<open>^\<close>\<close>
  | Eol                             \<comment> \<open>\<^verbatim>\<open>$\<close>\<close>

type_synonym regex = "node list"

type_synonym captures = "nat \<rightharpoonup> string"

definition isDigit :: "char \<Rightarrow> bool" where
  "isDigit c \<longleftrightarrow> CHR ''0'' \<le> c \<and> c \<le> CHR ''9''"

definition isWordChar :: "char \<Rightarrow> bool" where
  "isWordChar c \<longleftrightarrow>
     (CHR ''a'' \<le> c \<and> c \<le> CHR ''z'') \<or> (CHR ''A'' \<le> c \<and> c \<le> CHR ''Z'') \<or> isDigit c \<or> c = CHR ''_''"

fun cset_has :: "cset \<Rightarrow> char \<Rightarrow> bool" where
  "cset_has (Ch x) c = (c = x)"
| "cset_has (Rng lo hi) c = (lo \<le> c \<and> c \<le> hi)"
| "cset_has Space c = isWhiteSpace c"
| "cset_has Word c = isWordChar c"
| "cset_has Digit c = isDigit c"

fun atom_matches :: "atom \<Rightarrow> char \<Rightarrow> bool" where
  "atom_matches Dot c = (\<not> isLineTerminator c)"
| "atom_matches (Is x) c = cset_has x c"
| "atom_matches (In xs) c = (\<exists>x \<in> set xs. cset_has x c)"
| "atom_matches (NotIn xs) c = (\<not> (\<exists>x \<in> set xs. cset_has x c))"

text \<open>The characters of a literal part of a pattern, one atom each.\<close>

definition lit :: "string \<Rightarrow> regex" where
  "lit s = map (\<lambda>c. Atom (Is (Ch c))) s"

text \<open>The measure of the matcher's recursion: what is left of the pattern.\<close>

fun weight :: "node \<Rightarrow> nat" where
  "weight (Atom a) = 1"
| "weight (Star a) = 1"
| "weight (Plus a) = 3"
| "weight (Opt r) = Suc (sum_list (map weight r))"
| "weight (Alt r s) = Suc (sum_list (map weight r) + sum_list (map weight s))"
| "weight (Grp n r) = Suc (Suc (sum_list (map weight r)))"
| "weight (GrpEnd n s) = 1"
| "weight Bol = 1"
| "weight Eol = 1"

text \<open>
  The backtracking matcher of ECMAScript on these patterns. \<open>backtrack r s start caps\<close>
  matches the pattern \<open>r\<close> (the rest of the pattern: a continuation) at the rest \<open>s\<close> of the
  input; \<open>start\<close> says whether \<open>s\<close> is the whole input; \<open>caps\<close> are the groups captured so
  far. A quantifier takes as many characters as it can and gives them back one by one; an
  optional group is tried before it is skipped; the left alternative is tried first.
\<close>

function backtrack :: "regex \<Rightarrow> string \<Rightarrow> bool \<Rightarrow> captures \<Rightarrow> captures option" where
  "backtrack [] s start caps = Some caps"
| "backtrack (Atom a # k) s start caps =
     (case s of
        [] \<Rightarrow> None
      | c # cs \<Rightarrow> if atom_matches a c then backtrack k cs False caps else None)"
| "backtrack (Star a # k) s start caps =
     (case s of
        [] \<Rightarrow> backtrack k s start caps
      | c # cs \<Rightarrow>
          if atom_matches a c
          then (case backtrack (Star a # k) cs False caps of
                  Some m \<Rightarrow> Some m
                | None \<Rightarrow> backtrack k s start caps)
          else backtrack k s start caps)"
| "backtrack (Plus a # k) s start caps = backtrack (Atom a # Star a # k) s start caps"
| "backtrack (Opt r # k) s start caps =
     (case backtrack (r @ k) s start caps of
        Some m \<Rightarrow> Some m
      | None \<Rightarrow> backtrack k s start caps)"
| "backtrack (Alt r1 r2 # k) s start caps =
     (case backtrack (r1 @ k) s start caps of
        Some m \<Rightarrow> Some m
      | None \<Rightarrow> backtrack (r2 @ k) s start caps)"
| "backtrack (Grp n r # k) s start caps = backtrack (r @ GrpEnd n s # k) s start caps"
| "backtrack (GrpEnd n s0 # k) s start caps =
     backtrack k s start (caps(n \<mapsto> take (length s0 - length s) s0))"
| "backtrack (Bol # k) s start caps = (if start then backtrack k s start caps else None)"
| "backtrack (Eol # k) s start caps = (if s = [] then backtrack k s start caps else None)"
  by pat_completeness auto
termination
  by (relation "inv_image (less_than <*lex*> less_than)
        (\<lambda>(r, s, start, caps). (length s, sum_list (map weight r)))") auto

text \<open>
  \<^verbatim>\<open>regex.exec(s)\<close> for a regular expression without the \<^verbatim>\<open>g\<close> flag, which is also
  \<^verbatim>\<open>s.match(regex)\<close>: the match at the leftmost position that has one.
\<close>

fun exec_from :: "regex \<Rightarrow> string \<Rightarrow> bool \<Rightarrow> captures option" where
  "exec_from r [] start = backtrack r [] start Map.empty"
| "exec_from r (c # cs) start =
     (case backtrack r (c # cs) start Map.empty of
        Some m \<Rightarrow> Some m
      | None \<Rightarrow> exec_from r cs False)"

definition match :: "string \<Rightarrow> regex \<Rightarrow> captures option" where
  "match s r = exec_from r s True"

text \<open>\<^verbatim>\<open>regex.test(s)\<close>\<close>

definition test :: "regex \<Rightarrow> string \<Rightarrow> bool" where
  "test r s \<longleftrightarrow> exec_from r s True \<noteq> None"

text \<open>
  \<^verbatim>\<open>new RegExp(source)\<close>, for the sources the model reads: a sequence of terms, each a
  pattern character or \<^verbatim>\<open>.\<close>, with or without the quantifier \<^verbatim>\<open>*\<close>. A \<^verbatim>\<open>*\<close> with no atom
  before it is the syntax error that the constructor throws. A source with another syntax
  character (\<^verbatim>\<open>^ $ \ + ? ( ) [ ] { } |\<close>) is outside the model: \<open>Unmodelled\<close>.
\<close>

record js_error =
  e_name :: string
  e_message :: string

definition Error :: "string \<Rightarrow> js_error" where
  "Error msg = \<lparr>e_name = ''Error'', e_message = msg\<rparr>"

definition SyntaxError :: "string \<Rightarrow> js_error" where
  "SyntaxError msg = \<lparr>e_name = ''SyntaxError'', e_message = msg\<rparr>"

datatype 'a outcome = Returns 'a | Throws js_error | Unmodelled

definition isSyntaxCharacter :: "char \<Rightarrow> bool" where
  "isSyntaxCharacter c \<longleftrightarrow> c \<in> set (CHR 0x5C # ''^$.*+?()[]{}|'')"

fun parse_terms :: "string \<Rightarrow> string \<Rightarrow> regex outcome" where
  "parse_terms src [] = Returns []"
| "parse_terms src (c # cs) =
     (if c = CHR ''*''
      then Throws (SyntaxError (''Invalid regular expression: /'' @ src @ ''/: Nothing to repeat''))
      else if isSyntaxCharacter c \<and> c \<noteq> CHR ''.'' then Unmodelled
      else
        (let a = (if c = CHR ''.'' then Dot else Is (Ch c)) in
         case cs of
           [] \<Rightarrow> Returns [Atom a]
         | d # ds \<Rightarrow>
             if d = CHR ''*''
             then (case parse_terms src ds of
                     Returns r \<Rightarrow> Returns (Star a # r)
                   | Throws e \<Rightarrow> Throws e
                   | Unmodelled \<Rightarrow> Unmodelled)
             else (case parse_terms src (d # ds) of
                     Returns r \<Rightarrow> Returns (Atom a # r)
                   | Throws e \<Rightarrow> Throws e
                   | Unmodelled \<Rightarrow> Unmodelled)))"

definition RegExp :: "string \<Rightarrow> regex outcome" where
  "RegExp source = parse_terms source source"

section \<open>Node's path module (POSIX)\<close>

text \<open>
  \<^verbatim>\<open>basename\<close>, \<^verbatim>\<open>extname\<close>, \<^verbatim>\<open>join\<close> and \<^verbatim>\<open>resolve\<close> of Node's \<^verbatim>\<open>path\<close>, as documented for
  POSIX: the separator is \<^verbatim>\<open>/\<close>.
\<close>

definition basename :: "string \<Rightarrow> string" where
  "basename p =
     (let q = dropWhile (\<lambda>c. c = CHR ''/'') (rev p)
      in rev (takeWhile (\<lambda>c. c \<noteq> CHR ''/'') q))"

text \<open>
  The extension: from the last \<^verbatim>\<open>.\<close> of the last component to its end; empty when the
  component has no \<^verbatim>\<open>.\<close>, when its only \<^verbatim>\<open>.\<close> is its first character, and for \<^verbatim>\<open>..\<close>.
\<close>

definition extname :: "string \<Rightarrow> string" where
  "extname p =
     (let b = basename p;
          ext = rev (takeWhile (\<lambda>c. c \<noteq> CHR ''.'') (rev b))
      in if CHR ''.'' \<notin> set b then []
         else if length ext + 1 = length b then []
         else if b = ''..'' then []
         else CHR ''.'' # ext)"

fun join_with :: "string \<Rightarrow> string list \<Rightarrow> string" where
  "join_with sep [] = []"
| "join_with sep [x] = x"
| "join_with sep (x # y # ys) = x @ sep @ join_with sep (y # ys)"

text \<open>
  The components of a path with \<^verbatim>\<open>.\<close> and empty components dropped and each \<^verbatim>\<open>..\<close>
  resolved against the component before it; a \<^verbatim>\<open>..\<close> with nothing before it stays only
  in a relative path (\<open>allowAboveRoot\<close>).
\<close>

fun normalizeParts :: "bool \<Rightarrow> string list \<Rightarrow> string list \<Rightarrow> string list" where
  "normalizeParts allowAboveRoot res [] = res"
| "normalizeParts allowAboveRoot res (c # cs) =
     (if c = [] \<or> c = ''.'' then normalizeParts allowAboveRoot res cs
      else if c = ''..'' then
        (if res \<noteq> [] \<and> last res \<noteq> ''..'' then normalizeParts allowAboveRoot (butlast res) cs
         else if allowAboveRoot then normalizeParts allowAboveRoot (res @ [''..'']) cs
         else normalizeParts allowAboveRoot res cs)
      else normalizeParts allowAboveRoot (res @ [c]) cs)"

definition normalizeString :: "string \<Rightarrow> bool \<Rightarrow> string" where
  "normalizeString p allowAboveRoot =
     join_with ''/'' (normalizeParts allowAboveRoot [] (split CHR ''/'' p))"

definition normalize :: "string \<Rightarrow> string" where
  "normalize p =
     (if p = [] then ''.''
      else
        (let isAbsolute = (hd p = CHR ''/'');
             trailingSeparator = (last p = CHR ''/'');
             q = normalizeString p (\<not> isAbsolute)
         in if q = [] then (if isAbsolute then ''/'' else if trailingSeparator then ''./'' else ''.'')
            else (if isAbsolute then ''/'' else []) @ q @ (if trailingSeparator then ''/'' else [])))"

text \<open>\<^verbatim>\<open>join(a, b)\<close>\<close>

definition join :: "string \<Rightarrow> string \<Rightarrow> string" where
  "join a b =
     (let joined = join_with ''/'' (filter (\<lambda>x. x \<noteq> []) [a, b])
      in if joined = [] then ''.'' else normalize joined)"

text \<open>
  \<^verbatim>\<open>resolve(p)\<close> in a process whose working directory is \<open>cwd\<close>, an absolute path.
\<close>

definition resolve :: "string \<Rightarrow> string \<Rightarrow> string" where
  "resolve cwd p =
     (let full = (if p \<noteq> [] \<and> hd p = CHR ''/'' then p
                  else if p = [] then cwd else cwd @ ''/'' @ p)
      in CHR ''/'' # normalizeString full False)"

section \<open>Types and constants of the scanner\<close>

datatype ConfigType = Bash | Zsh | Vim | Git | Ssh | Vscode | System | Custom

datatype BackupStatus = Not_backed_up | Pending | Backed_up | Backup_error

text \<open>
  \<^verbatim>\<open>DotfileConfig\<close>. Its optional \<^verbatim>\<open>aiAnalysis\<close> is absent on every record the scanner
  builds and has no field here. The source types \<^verbatim>\<open>type\<close> as a \<^verbatim>\<open>ConfigType\<close>, but what
  \<^verbatim>\<open>determineConfigType\<close> returns is whatever the lookup in \<^verbatim>\<open>CONFIG_TYPE_MAPPING\<close>
  yields, which for a name that the object inherits is a member of \<^verbatim>\<open>Object.prototype\<close>.
\<close>

datatype type_value = Kind ConfigType | Inherited string

record DotfileConfig =
  cfg_path :: string
  cfg_type :: type_value
  cfg_content :: string
  cfg_lastModified :: int
  cfg_size :: nat
  cfg_dependencies :: "string list"
  cfg_isActive :: bool
  cfg_backupStatus :: BackupStatus

text \<open>
  \<^verbatim>\<open>ScanOptions\<close>: every field is optional. \<^verbatim>\<open>maxFileSize\<close> is a number of bytes; the
  model has the integers.
\<close>

record ScanOptions =
  paths :: "string list option"
  includeHidden :: "bool option"
  maxFileSize :: "int option"
  excludePatterns :: "string list option"
  useAI :: "bool option"

datatype ErrorType = Permission | Not_found | Parse_error | Size_limit | Unknown

record ScanError =
  err_path :: string
  err_message :: string
  err_type :: ErrorType
  err_name :: string

text \<open>Times are milliseconds since the epoch.\<close>

record ScanMetadata =
  totalFiles :: nat
  validConfigs :: nat
  duration :: int
  startTime :: int
  endTime :: int

record ScanResult =
  res_configs :: "DotfileConfig list"
  res_metadata :: ScanMetadata
  res_errors :: "ScanError list"

definition DEFAULT_SCAN_PATHS :: "string list" where
  "DEFAULT_SCAN_PATHS =
     [''~/.bashrc'', ''~/.bash_profile'', ''~/.bash_aliases'', ''~/.zshrc'', ''~/.zsh_profile'',
      ''~/.oh-my-zsh/custom'', ''~/.vimrc'', ''~/.nvimrc'', ''~/.gitconfig'',
      ''~/.gitignore_global'', ''~/.ssh/config'', ''~/.ssh/known_hosts'', ''~/.profile'',
      ''~/.inputrc'', ''~/.tmux.conf'', ''~/.screenrc'']"

definition CONFIG_TYPE_MAPPING :: "(string \<times> ConfigType) list" where
  "CONFIG_TYPE_MAPPING =
     [(''.bashrc'', Bash), (''.bash_profile'', Bash), (''.bash_aliases'', Bash),
      (''.zshrc'', Zsh), (''.zsh_profile'', Zsh),
      (''.vimrc'', Vim), (''.nvimrc'', Vim),
      (''.gitconfig'', Git), (''.gitignore_global'', Git),
      (''config'', Ssh), (''known_hosts'', Ssh),
      (''.profile'', System), (''.inputrc'', System), (''.tmux.conf'', System),
      (''.screenrc'', System)]"

definition MAX_FILE_SIZE :: int where
  "MAX_FILE_SIZE = 10 * 1024 * 1024"

definition SUPPORTED_EXTENSIONS :: "string list" where
  "SUPPORTED_EXTENSIONS =
     [''.rc'', ''.conf'', ''.config'', ''.profile'', ''.bashrc'', ''.zshrc'', ''.vimrc'',
      ''.nvimrc'', ''.gitconfig'', ''.gitignore'', ''.ssh'', ''.tmux'', ''.screen'']"

text \<open>
  \<^verbatim>\<open>CONFIG_TYPE_MAPPING\<close> is an object literal, and \<^verbatim>\<open>key in object\<close> and \<^verbatim>\<open>object[key]\<close>
  also find what the object inherits: the members of \<^verbatim>\<open>Object.prototype\<close>.
\<close>

definition Object_prototype :: "string list" where
  "Object_prototype =
     [''constructor'', ''__defineGetter__'', ''__defineSetter__'', ''hasOwnProperty'',
      ''__lookupGetter__'', ''__lookupSetter__'', ''isPrototypeOf'', ''propertyIsEnumerable'',
      ''toString'', ''valueOf'', ''__proto__'', ''toLocaleString'']"

definition js_in :: "string \<Rightarrow> (string \<times> ConfigType) list \<Rightarrow> bool" where
  "js_in key obj \<longleftrightarrow> map_of obj key \<noteq> None \<or> key \<in> set Object_prototype"

definition js_get :: "(string \<times> ConfigType) list \<Rightarrow> string \<Rightarrow> type_value" where
  "js_get obj key = (case map_of obj key of Some k \<Rightarrow> Kind k | None \<Rightarrow> Inherited key)"

section \<open>The scanner (\<^verbatim>\<open>DotfileScanner\<close>)\<close>

text \<open>\<^verbatim>\<open>determineConfigType\<close>: \<open>None\<close> is the source's \<^verbatim>\<open>null\<close>.\<close>

definition determineConfigType :: "string \<Rightarrow> type_value option" where
  "determineConfigType filePath =
     (let fileName = basename filePath;
          extension = extname filePath
      in if js_in fileName CONFIG_TYPE_MAPPING then Some (js_get CONFIG_TYPE_MAPPING fileName)
         else if extension \<noteq> [] \<and> js_in extension CONFIG_TYPE_MAPPING
           then Some (js_get CONFIG_TYPE_MAPPING extension)
         else if \<exists>ext \<in> set SUPPORTED_EXTENSIONS. str_includes fileName ext then Some (Kind Custom)
         else None)"

text \<open>\<^verbatim>\<open>pattern.replace(/\*/g, '.*')\<close>\<close>

definition replace_stars :: "string \<Rightarrow> string" where
  "replace_stars pattern = concat (map (\<lambda>c. if c = CHR ''*'' then ''.*'' else [c]) pattern)"

text \<open>
  \<^verbatim>\<open>excludePatterns.some(...)\<close> of \<^verbatim>\<open>shouldExclude\<close>: it stops at the first pattern that
  matches, and the constructor's syntax error leaves it as an exception.
\<close>

fun some_pattern :: "string \<Rightarrow> string list \<Rightarrow> bool outcome" where
  "some_pattern path [] = Returns False"
| "some_pattern path (pattern # rest) =
     (case RegExp (replace_stars pattern) of
        Returns regex \<Rightarrow> if test regex path then Returns True else some_pattern path rest
      | Throws e \<Rightarrow> Throws e
      | Unmodelled \<Rightarrow> Unmodelled)"

definition shouldExclude :: "string \<Rightarrow> string list option \<Rightarrow> bool outcome" where
  "shouldExclude path excludePatterns' =
     (case excludePatterns' of
        None \<Rightarrow> Returns False
      | Some patterns \<Rightarrow> some_pattern path patterns)"

text \<open>
  \<^verbatim>\<open>resolvePath\<close>, in a process with that home directory (the scanner's \<^verbatim>\<open>homeDir\<close>) and
  that working directory.
\<close>

record Process =
  homeDir :: string
  cwd :: string

definition resolvePath :: "Process \<Rightarrow> string \<Rightarrow> string" where
  "resolvePath pr path =
     (if startsWith path ''~'' then join (homeDir pr) (drop 1 path)
      else resolve (cwd pr) path)"

text \<open>\<^verbatim>\<open>categorizeError\<close>\<close>

definition categorizeError :: "js_error \<Rightarrow> ErrorType" where
  "categorizeError error =
     (let message = toLowerCase (e_message error)
      in if str_includes message ''permission denied'' \<or> str_includes message ''eacces'' then Permission
         else if str_includes message ''no such file'' \<or> str_includes message ''enoent'' then Not_found
         else if str_includes message ''too large'' then Size_limit
         else if str_includes message ''parse'' \<or> str_includes message ''syntax'' then Parse_error
         else Unknown)"

text \<open>
  The file system is what \<^verbatim>\<open>fs/promises\<close> answers: \<^verbatim>\<open>stat\<close>, \<^verbatim>\<open>readFile\<close> (as UTF-8 text)
  and \<^verbatim>\<open>readdir\<close> (with file types), each the value returned or the error thrown. The
  scanner awaits every call before the next, so a scan is a sequence of calls; the calls
  made are kept in a trace.
\<close>

datatype file_kind = IsFile | IsDirectory | IsOther

record Stats =
  st_kind :: file_kind
  st_size :: nat
  st_mtime :: int

record Dirent =
  d_name :: string
  d_kind :: file_kind

record FS =
  stat :: "string \<Rightarrow> js_error + Stats"
  readFile :: "string \<Rightarrow> js_error + string"
  readdir :: "string \<Rightarrow> js_error + Dirent list"

datatype fs_call = Stat string | ReadFile string | Readdir string

type_synonym trace = "fs_call list"

text \<open>\<^verbatim>\<open>options.maxFileSize || MAX_FILE_SIZE\<close>: an absent size and the size 0 are falsy.\<close>

definition maxFileSize_or_default :: "ScanOptions \<Rightarrow> int" where
  "maxFileSize_or_default options =
     (case maxFileSize options of
        None \<Rightarrow> MAX_FILE_SIZE
      | Some n \<Rightarrow> if n = 0 then MAX_FILE_SIZE else n)"

text \<open>
  \<^verbatim>\<open>scanFile\<close>: the result (\<open>Inl\<close> is \<^verbatim>\<open>{success: false, error}\<close>, \<open>Inr\<close> is
  \<^verbatim>\<open>{success: true, data}\<close>) and the trace with the calls made.
\<close>

definition scanFile ::
  "FS \<Rightarrow> ScanOptions \<Rightarrow> string \<Rightarrow> trace \<Rightarrow> (js_error + DotfileConfig list) \<times> trace" where
  "scanFile fs options filePath tr =
     (case stat fs filePath of
        Inl e \<Rightarrow> (Inl e, tr @ [Stat filePath])
      | Inr stats \<Rightarrow>
          if int (st_size stats) > maxFileSize_or_default options
          then (Inl (Error (''File too large: '' @ decimal (st_size stats) @ '' bytes'')),
                tr @ [Stat filePath])
          else
            (case readFile fs filePath of
               Inl e \<Rightarrow> (Inl e, tr @ [Stat filePath, ReadFile filePath])
             | Inr content \<Rightarrow>
                 (case determineConfigType filePath of
                    None \<Rightarrow> (Inr [], tr @ [Stat filePath, ReadFile filePath])
                  | Some configType \<Rightarrow>
                      (Inr [\<lparr>cfg_path = filePath,
                             cfg_type = configType,
                             cfg_content = content,
                             cfg_lastModified = st_mtime stats,
                             cfg_size = st_size stats,
                             cfg_dependencies = [],
                             cfg_isActive = True,
                             cfg_backupStatus = Not_backed_up\<rparr>],
                       tr @ [Stat filePath, ReadFile filePath]))))"

text \<open>
  \<^verbatim>\<open>scanDirectory\<close>. The recursion of the source has no bound; the model has the depth
  left as its first argument, and \<open>None\<close> says that the model does not give the result:
  the depth ran out, or an exclude pattern is outside the modelled regular expressions.
  \<open>scanEntries\<close> is the loop over the entries, \<open>recurse\<close> the call for a subdirectory.
\<close>

fun scanEntries ::
  "(string \<Rightarrow> trace \<Rightarrow> ((js_error + DotfileConfig list) \<times> trace) option) \<Rightarrow>
   FS \<Rightarrow> ScanOptions \<Rightarrow> string \<Rightarrow> Dirent list \<Rightarrow> DotfileConfig list \<Rightarrow> trace \<Rightarrow>
   ((js_error + DotfileConfig list) \<times> trace) option" where
  "scanEntries recurse fs options dirPath [] configs tr = Some (Inr configs, tr)"
| "scanEntries recurse fs options dirPath (entry # entries) configs tr =
     (let fullPath = join dirPath (d_name entry) in
      if includeHidden options \<noteq> Some True \<and> startsWith (d_name entry) ''.''
      then scanEntries recurse fs options dirPath entries configs tr
      else
        (case shouldExclude fullPath (excludePatterns options) of
           Unmodelled \<Rightarrow> None
         | Throws e \<Rightarrow> Some (Inl e, tr)
         | Returns True \<Rightarrow> scanEntries recurse fs options dirPath entries configs tr
         | Returns False \<Rightarrow>
             if d_kind entry = IsFile then
               (case scanFile fs options fullPath tr of
                  (Inr data, tr') \<Rightarrow> scanEntries recurse fs options dirPath entries (configs @ data) tr'
                | (Inl e, tr') \<Rightarrow> scanEntries recurse fs options dirPath entries configs tr')
             else if d_kind entry = IsDirectory then
               (case recurse fullPath tr of
                  None \<Rightarrow> None
                | Some (Inr data, tr') \<Rightarrow> scanEntries recurse fs options dirPath entries (configs @ data) tr'
                | Some (Inl e, tr') \<Rightarrow> scanEntries recurse fs options dirPath entries configs tr')
             else scanEntries recurse fs options dirPath entries configs tr))"

primrec scanDirectory ::
  "nat \<Rightarrow> FS \<Rightarrow> ScanOptions \<Rightarrow> string \<Rightarrow> trace \<Rightarrow> ((js_error + DotfileConfig list) \<times> trace) option" where
  "scanDirectory 0 fs options dirPath tr = None"
| "scanDirectory (Suc depth) fs options dirPath tr =
     (case readdir fs dirPath of
        Inl e \<Rightarrow> Some (Inl e, tr @ [Readdir dirPath])
      | Inr entries \<Rightarrow>
          scanEntries (scanDirectory depth fs options) fs options dirPath entries []
            (tr @ [Readdir dirPath]))"

text \<open>\<^verbatim>\<open>scanPath\<close>\<close>

definition scanPath ::
  "nat \<Rightarrow> FS \<Rightarrow> ScanOptions \<Rightarrow> string \<Rightarrow> trace \<Rightarrow> ((js_error + DotfileConfig list) \<times> trace) option" where
  "scanPath depth fs options path tr =
     (case stat fs path of
        Inl e \<Rightarrow> Some (Inl e, tr @ [Stat path])
      | Inr stats \<Rightarrow>
          if st_kind stats = IsFile then Some (scanFile fs options path (tr @ [Stat path]))
          else if st_kind stats = IsDirectory then scanDirectory depth fs options path (tr @ [Stat path])
          else Some (Inl (Error (''Path is neither file nor directory: '' @ path)), tr @ [Stat path]))"

text \<open>
  \<^verbatim>\<open>scan\<close>. \<open>scanPaths\<close> is its loop over the requested paths. The two readings of the
  clock (\<^verbatim>\<open>new Date()\<close> before and after the loop) are arguments. Nothing in the body
  throws, so the result is always \<^verbatim>\<open>{success: true, data}\<close>: the \<open>ScanResult\<close> itself.
\<close>

fun scanPaths ::
  "nat \<Rightarrow> Process \<Rightarrow> FS \<Rightarrow> ScanOptions \<Rightarrow> string list \<Rightarrow> DotfileConfig list \<Rightarrow> ScanError list \<Rightarrow>
   trace \<Rightarrow> (DotfileConfig list \<times> ScanError list \<times> trace) option" where
  "scanPaths depth pr fs options [] cs es tr = Some (cs, es, tr)"
| "scanPaths depth pr fs options (path # rest) cs es tr =
     (let resolvedPath = resolvePath pr path in
      case scanPath depth fs options resolvedPath tr of
        None \<Rightarrow> None
      | Some (Inr data, tr') \<Rightarrow> scanPaths depth pr fs options rest (cs @ data) es tr'
      | Some (Inl error, tr') \<Rightarrow>
          scanPaths depth pr fs options rest cs
            (es @ [\<lparr>err_path = resolvedPath,
                    err_message = e_message error,
                    err_type = categorizeError error,
                    err_name = (if e_name error = [] then ''ScanError'' else e_name error)\<rparr>])
            tr')"

definition scan ::
  "nat \<Rightarrow> Process \<Rightarrow> FS \<Rightarrow> int \<Rightarrow> int \<Rightarrow> ScanOptions \<Rightarrow> (ScanResult \<times> trace) option" where
  "scan depth pr fs clock0 clock1 options =
     (let pathsToScan = (case paths options of Some ps \<Rightarrow> ps | None \<Rightarrow> DEFAULT_SCAN_PATHS) in
      case scanPaths depth pr fs options pathsToScan [] [] [] of
        None \<Rightarrow> None
      | Some (cs, es, tr) \<Rightarrow>
          Some (\<lparr>res_configs = cs,
                 res_metadata = \<lparr>totalFiles = length pathsToScan,
                             validConfigs = length cs,
                             duration = clock1 - clock0,
                             startTime = clock0,
                             endTime = clock1\<rparr>,
                 res_errors = es\<rparr>, tr))"

section \<open>The parsers (\<^verbatim>\<open>ConfigParser\<close> and its four classes)\<close>

text \<open>
  What a parser stores under a name is a string, a boolean or a number. A number is
  \<^verbatim>\<open>Number(text)\<close> for a text that denotes one; the model keeps the text.
\<close>

datatype js_value = JString string | JBool bool | JNumber string

record ValidationResult =
  isValid :: bool
  errors :: "string list"
  warnings :: "string list"
  suggestions :: "string list"

record BashData =
  bd_variables :: "string \<rightharpoonup> js_value"
  bd_imports :: "string list"
  bd_comments :: "string list"
  bd_functions :: "string list"
  bd_aliases :: "string list"
  bd_lineCount :: nat

record VimData =
  vd_settings :: "string \<rightharpoonup> js_value"
  vd_keyMappings :: "string \<rightharpoonup> string"
  vd_plugins :: "string list"
  vd_functions :: "string list"
  vd_autocmds :: "string list"
  vd_lineCount :: nat

record GitData =
  gd_sections :: "string \<rightharpoonup> (string \<rightharpoonup> js_value)"
  gd_aliases :: "string \<rightharpoonup> js_value"
  gd_remotes :: "string \<rightharpoonup> js_value"
  gd_lineCount :: nat

record SimpleData =
  sd_content :: string
  sd_lines :: nat

text \<open>The \<^verbatim>\<open>data\<close> of a \<^verbatim>\<open>ParsedConfig\<close> is typed \<^verbatim>\<open>any\<close>: each parser has its own.\<close>

datatype parsed_data = OfBash BashData | OfVim VimData | OfGit GitData | OfSimple SimpleData

record ParsedConfig =
  pc_data :: parsed_data
  pc_variables :: "string \<rightharpoonup> js_value"
  pc_imports :: "string list"
  pc_comments :: "string list"
  pc_validation :: ValidationResult

abbreviation dquote :: char where "dquote \<equiv> CHR 0x22"
abbreviation squote :: char where "squote \<equiv> CHR 0x27"
abbreviation backtick :: char where "backtick \<equiv> CHR 0x60"
abbreviation newline :: char where "newline \<equiv> CHR 0x0A"

text \<open>
  \<^verbatim>\<open>object[key] = value\<close> on an object literal, for a string, boolean or number: the key
  \<^verbatim>\<open>__proto__\<close> is the inherited setter, which ignores such a value; every other key
  becomes a property of the object.
\<close>

definition js_set :: "(string \<rightharpoonup> 'v) \<Rightarrow> string \<Rightarrow> 'v \<Rightarrow> (string \<rightharpoonup> 'v)" where
  "js_set object key v = (if key = ''__proto__'' then object else object(key \<mapsto> v))"

text \<open>
  \<^verbatim>\<open>isNaN(Number(text))\<close>. \<^verbatim>\<open>Number\<close> of a string strips white space, reads the empty
  string as 0, and otherwise reads a numeric literal: a signed decimal literal (digits
  with an optional fraction and exponent, or \<^verbatim>\<open>Infinity\<close>) or an unsigned binary, octal or
  hexadecimal integer; every other string is \<^verbatim>\<open>NaN\<close>.
\<close>

definition ExponentPart :: regex where
  "ExponentPart =
     [Atom (In [Ch CHR ''e'', Ch CHR ''E'']), Opt [Atom (In [Ch CHR ''+'', Ch CHR ''-''])],
      Plus (Is Digit)]"

definition StrDecimalLiteral :: regex where
  "StrDecimalLiteral =
     [Bol, Opt [Atom (In [Ch CHR ''+'', Ch CHR ''-''])],
      Alt (lit ''Infinity'')
        [Alt [Plus (Is Digit), Opt [Atom (Is (Ch CHR ''.'')), Star (Is Digit)], Opt ExponentPart]
             [Atom (Is (Ch CHR ''.'')), Plus (Is Digit), Opt ExponentPart]],
      Eol]"

definition NonDecimalIntegerLiteral :: "regex list" where
  "NonDecimalIntegerLiteral =
     [[Bol, Atom (Is (Ch CHR ''0'')), Atom (In [Ch CHR ''b'', Ch CHR ''B'']),
       Plus (In [Rng CHR ''0'' CHR ''1'']), Eol],
      [Bol, Atom (Is (Ch CHR ''0'')), Atom (In [Ch CHR ''o'', Ch CHR ''O'']),
       Plus (In [Rng CHR ''0'' CHR ''7'']), Eol],
      [Bol, Atom (Is (Ch CHR ''0'')), Atom (In [Ch CHR ''x'', Ch CHR ''X'']),
       Plus (In [Rng CHR ''0'' CHR ''9'', Rng CHR ''a'' CHR ''f'', Rng CHR ''A'' CHR ''F'']), Eol]]"

definition isNaN_Number :: "string \<Rightarrow> bool" where
  "isNaN_Number text =
     (let t = trim text
      in \<not> (t = [] \<or> test StrDecimalLiteral t \<or> (\<exists>r \<in> set NonDecimalIntegerLiteral. test r t)))"

text \<open>The group of a match: \<open>None\<close> is \<^verbatim>\<open>undefined\<close>, a group that took no part.\<close>

definition group :: "captures \<Rightarrow> nat \<Rightarrow> string option" where
  "group m n = m n"

subsection \<open>\<^verbatim>\<open>BashParser\<close>\<close>

text \<open>\<^verbatim>\<open>/^([A-Z_][A-Z0-9_]*)\s*=\s*(.+)$/\<close>\<close>

definition bash_varRegex :: regex where
  "bash_varRegex =
     [Bol,
      Grp 1 [Atom (In [Rng CHR ''A'' CHR ''Z'', Ch CHR ''_'']),
             Star (In [Rng CHR ''A'' CHR ''Z'', Rng CHR ''0'' CHR ''9'', Ch CHR ''_''])],
      Star (Is Space), Atom (Is (Ch CHR ''='')), Star (Is Space),
      Grp 2 [Plus Dot], Eol]"

text \<open>\<^verbatim>\<open>/^(source|\.)\s+(.+)$/\<close>\<close>

definition bash_importRegex :: regex where
  "bash_importRegex =
     [Bol, Grp 1 [Alt (lit ''source'') (lit ''.'')], Plus (Is Space), Grp 2 [Plus Dot], Eol]"

text \<open>\<^verbatim>\<open>/^(\w+)\s*\(\s*\)\s*\{/\<close>\<close>

definition bash_funcRegex :: regex where
  "bash_funcRegex =
     [Bol, Grp 1 [Plus (Is Word)], Star (Is Space), Atom (Is (Ch CHR ''('')), Star (Is Space),
      Atom (Is (Ch CHR '')'')), Star (Is Space), Atom (Is (Ch CHR ''{''))]"

text \<open>\<^verbatim>\<open>/^alias\s+(\w+)=(.+)$/\<close>\<close>

definition bash_aliasRegex :: regex where
  "bash_aliasRegex =
     Bol # lit ''alias'' @
     [Plus (Is Space), Grp 1 [Plus (Is Word)], Atom (Is (Ch CHR ''='')), Grp 2 [Plus Dot], Eol]"

text \<open>\<^verbatim>\<open>BashParser.parseValue\<close>\<close>

definition BashParser_parseValue :: "string \<Rightarrow> js_value" where
  "BashParser_parseValue v =
     (let trimmed = trim v
      in if startsWith trimmed [dquote] \<and> endsWith trimmed [dquote] then JString (slice_1_m1 trimmed)
         else if startsWith trimmed [squote] \<and> endsWith trimmed [squote] then JString (slice_1_m1 trimmed)
         else if trimmed = ''true'' \<or> trimmed = ''false'' then JBool (trimmed = ''true'')
         else if \<not> isNaN_Number trimmed then JNumber trimmed
         else JString trimmed)"

text \<open>\<^verbatim>\<open>s.replace(/['"]/g, '')\<close>\<close>

definition remove_quotes :: "string \<Rightarrow> string" where
  "remove_quotes s = filter (\<lambda>c. c \<noteq> squote \<and> c \<noteq> dquote) s"

text \<open>
  The body of the loop of \<^verbatim>\<open>BashParser.parse\<close> for one line: the first recogniser that
  matches takes the line.
\<close>

definition bash_parse_line :: "string \<Rightarrow> BashData \<Rightarrow> BashData" where
  "bash_parse_line raw st =
     (let line = trim raw
      in if line = [] then st
         else if startsWith line ''#''
           then st\<lparr>bd_comments := bd_comments st @ [trim (substring1 line)]\<rparr>
         else
           (case match line bash_varRegex of
              Some varMatch \<Rightarrow>
                (case (group varMatch 1, group varMatch 2) of
                   (Some name, Some v) \<Rightarrow>
                     st\<lparr>bd_variables := js_set (bd_variables st) name (BashParser_parseValue v)\<rparr>
                 | _ \<Rightarrow> st)
            | None \<Rightarrow>
                (case match line bash_importRegex of
                   Some importMatch \<Rightarrow>
                     (case group importMatch 2 of
                        Some target \<Rightarrow> st\<lparr>bd_imports := bd_imports st @ [remove_quotes target]\<rparr>
                      | None \<Rightarrow> st)
                 | None \<Rightarrow>
                     (case match line bash_funcRegex of
                        Some funcMatch \<Rightarrow>
                          (case group funcMatch 1 of
                             Some name \<Rightarrow> st\<lparr>bd_functions := bd_functions st @ [name]\<rparr>
                           | None \<Rightarrow> st)
                      | None \<Rightarrow>
                          (case match line bash_aliasRegex of
                             Some aliasMatch \<Rightarrow>
                               (case group aliasMatch 1 of
                                  Some name \<Rightarrow> st\<lparr>bd_aliases := bd_aliases st @ [name]\<rparr>
                                | None \<Rightarrow> st)
                           | None \<Rightarrow> st)))))"

fun bash_parse_lines :: "string list \<Rightarrow> BashData \<Rightarrow> BashData" where
  "bash_parse_lines [] st = st"
| "bash_parse_lines (raw # rest) st = bash_parse_lines rest (bash_parse_line raw st)"

text \<open>
  The body of the loop of \<^verbatim>\<open>BashParser.validate\<close> for the line of that number: the
  errors, warnings and suggestions, each with what the line adds.
\<close>

definition line_message :: "nat \<Rightarrow> string \<Rightarrow> string" where
  "line_message lineNum msg = ''Line '' @ decimal lineNum @ '': '' @ msg"

definition bash_validate_line ::
  "string \<Rightarrow> nat \<Rightarrow> string list \<times> string list \<times> string list \<Rightarrow>
   string list \<times> string list \<times> string list" where
  "bash_validate_line line lineNum acc =
     (case acc of (es, ws, ss) \<Rightarrow>
        (let es1 = (if str_includes line ''$(('' \<and> \<not> str_includes line ''))''
                    then es @ [line_message lineNum ''Unclosed arithmetic expansion''] else es);
             es2 = (if str_includes line ''${'' \<and> \<not> str_includes line ''}''
                    then es1 @ [line_message lineNum ''Unclosed variable expansion''] else es1);
             es3 = (if str_includes line [backtick] \<and> (length (split backtick line) - 1) mod 2 \<noteq> 0
                    then es2 @ [line_message lineNum ''Unclosed command substitution''] else es2);
             ws1 = (if str_includes line ''rm -rf'' \<and> \<not> str_includes line ''$HOME''
                    then ws @ [line_message lineNum ''Dangerous rm -rf command without path validation'']
                    else ws);
             ws2 = (if str_includes line ''sudo'' \<and> \<not> str_includes line ''echo''
                    then ws1 @ [line_message lineNum ''Sudo command may require password input'']
                    else ws1);
             ss1 = (if str_includes line ''export'' \<and> str_includes line ''='' \<and>
                       \<not> str_includes line [dquote]
                    then ss @ [line_message lineNum ''Consider quoting variable values''] else ss);
             ss2 = (if str_includes line ''cd'' \<and> \<not> str_includes line ''||''
                    then ss1 @ [line_message lineNum ''Consider error handling for cd command'']
                    else ss1)
         in (es3, ws2, ss2)))"

text \<open>
  The loop of a \<^verbatim>\<open>validate\<close> over the lines: \<open>i\<close> is the index of the first of them, so
  its number is \<open>i + 1\<close>.
\<close>

fun validate_lines ::
  "(string \<Rightarrow> nat \<Rightarrow> string list \<times> string list \<times> string list \<Rightarrow>
      string list \<times> string list \<times> string list) \<Rightarrow>
   string list \<Rightarrow> nat \<Rightarrow> string list \<times> string list \<times> string list \<Rightarrow>
   string list \<times> string list \<times> string list" where
  "validate_lines body [] i acc = acc"
| "validate_lines body (line # rest) i acc =
     validate_lines body rest (i + 1) (body line (i + 1) acc)"

text \<open>What every \<^verbatim>\<open>validate\<close> returns from the three lists.\<close>

definition validation_of :: "string list \<times> string list \<times> string list \<Rightarrow> ValidationResult" where
  "validation_of acc =
     (case acc of (es, ws, ss) \<Rightarrow>
        \<lparr>isValid = (length es = 0), errors = es, warnings = ws, suggestions = ss\<rparr>)"

text \<open>
  \<^verbatim>\<open>BashParser.validate\<close>. Nothing in its body throws on a string, so the result is
  always \<^verbatim>\<open>{success: true, data}\<close>, which is \<open>Inr\<close>.
\<close>

definition BashParser_validate :: "string \<Rightarrow> js_error + ValidationResult" where
  "BashParser_validate content =
     Inr (validation_of (validate_lines bash_validate_line (split newline content) 0 ([], [], [])))"

text \<open>The \<^verbatim>\<open>validation\<close> that every \<^verbatim>\<open>parse\<close> writes into its result.\<close>

definition validation_literal :: ValidationResult where
  "validation_literal = \<lparr>isValid = True, errors = [], warnings = [], suggestions = []\<rparr>"

text \<open>\<^verbatim>\<open>BashParser.parse\<close>\<close>

definition BashParser_parse :: "DotfileConfig \<Rightarrow> js_error + ParsedConfig" where
  "BashParser_parse config =
     (let content = cfg_content config;
          lines = split newline content;
          st = bash_parse_lines lines
                 \<lparr>bd_variables = Map.empty, bd_imports = [], bd_comments = [], bd_functions = [],
                  bd_aliases = [], bd_lineCount = length lines\<rparr>
      in case BashParser_validate content of
           Inl error \<Rightarrow> Inl error
         | Inr validation \<Rightarrow>
             Inr \<lparr>pc_data = OfBash st,
                  pc_variables = bd_variables st,
                  pc_imports = bd_imports st,
                  pc_comments = bd_comments st,
                  pc_validation = validation_literal\<rparr>)"

subsection \<open>\<^verbatim>\<open>VimParser\<close>\<close>

text \<open>\<^verbatim>\<open>/^set\s+(\w+)(?:=([^"]+))?/\<close>\<close>

definition vim_setRegex :: regex where
  "vim_setRegex =
     Bol # lit ''set'' @
     [Plus (Is Space), Grp 1 [Plus (Is Word)],
      Opt [Atom (Is (Ch CHR ''='')), Grp 2 [Plus (NotIn [Ch dquote])]]]"

text \<open>\<^verbatim>\<open>/^(?:nore)?map\s+([^"]+)\s+(.+)$/\<close>\<close>

definition vim_mapRegex :: regex where
  "vim_mapRegex =
     [Bol, Opt (lit ''nore'')] @ lit ''map'' @
     [Plus (Is Space), Grp 1 [Plus (NotIn [Ch dquote])], Plus (Is Space), Grp 2 [Plus Dot], Eol]"

text \<open>\<^verbatim>\<open>/^Plug\s+['"]([^'"]+)['"]/\<close>\<close>

definition vim_pluginRegex :: regex where
  "vim_pluginRegex =
     Bol # lit ''Plug'' @
     [Plus (Is Space), Atom (In [Ch squote, Ch dquote]),
      Grp 1 [Plus (NotIn [Ch squote, Ch dquote])], Atom (In [Ch squote, Ch dquote])]"

text \<open>\<^verbatim>\<open>/^function\s+(\w+)/\<close>\<close>

definition vim_funcRegex :: regex where
  "vim_funcRegex = Bol # lit ''function'' @ [Plus (Is Space), Grp 1 [Plus (Is Word)]]"

text \<open>\<^verbatim>\<open>/^autocmd\s+(.+)$/\<close>\<close>

definition vim_autocmdRegex :: regex where
  "vim_autocmdRegex = Bol # lit ''autocmd'' @ [Plus (Is Space), Grp 1 [Plus Dot], Eol]"

text \<open>
  The body of the loop of \<^verbatim>\<open>VimParser.parse\<close> for one line, on the parsed data and the
  comments. \<^verbatim>\<open>value || true\<close> is \<^verbatim>\<open>true\<close> for a group that took no part.
\<close>

definition vim_parse_line :: "string \<Rightarrow> VimData \<times> string list \<Rightarrow> VimData \<times> string list" where
  "vim_parse_line raw acc =
     (case acc of (st, comments) \<Rightarrow>
      (let line = trim raw
       in if line = [] then (st, comments)
          else if startsWith line [dquote] then (st, comments @ [trim (substring1 line)])
          else
            (case match line vim_setRegex of
               Some setMatch \<Rightarrow>
                 (case group setMatch 1 of
                    Some option \<Rightarrow>
                      (st\<lparr>vd_settings := js_set (vd_settings st) option
                            (case group setMatch 2 of
                               Some v \<Rightarrow> if v = [] then JBool True else JString v
                             | None \<Rightarrow> JBool True)\<rparr>, comments)
                  | None \<Rightarrow> (st, comments))
             | None \<Rightarrow>
                 (case match line vim_mapRegex of
                    Some mapMatch \<Rightarrow>
                      (case (group mapMatch 1, group mapMatch 2) of
                         (Some key, Some command) \<Rightarrow>
                           (st\<lparr>vd_keyMappings := js_set (vd_keyMappings st) key command\<rparr>, comments)
                       | _ \<Rightarrow> (st, comments))
                  | None \<Rightarrow>
                      (case match line vim_pluginRegex of
                         Some pluginMatch \<Rightarrow>
                           (case group pluginMatch 1 of
                              Some name \<Rightarrow> (st\<lparr>vd_plugins := vd_plugins st @ [name]\<rparr>, comments)
                            | None \<Rightarrow> (st, comments))
                       | None \<Rightarrow>
                           (case match line vim_funcRegex of
                              Some funcMatch \<Rightarrow>
                                (case group funcMatch 1 of
                                   Some name \<Rightarrow> (st\<lparr>vd_functions := vd_functions st @ [name]\<rparr>, comments)
                                 | None \<Rightarrow> (st, comments))
                            | None \<Rightarrow>
                                (case match line vim_autocmdRegex of
                                   Some autocmdMatch \<Rightarrow>
                                     (case group autocmdMatch 1 of
                                        Some cmd \<Rightarrow> (st\<lparr>vd_autocmds := vd_autocmds st @ [cmd]\<rparr>, comments)
                                      | None \<Rightarrow> (st, comments))
                                 | None \<Rightarrow> (st, comments))))))))"

fun vim_parse_lines :: "string list \<Rightarrow> VimData \<times> string list \<Rightarrow> VimData \<times> string list" where
  "vim_parse_lines [] acc = acc"
| "vim_parse_lines (raw # rest) acc = vim_parse_lines rest (vim_parse_line raw acc)"

text \<open>The body of the loop of \<^verbatim>\<open>VimParser.validate\<close> for the line of that number.\<close>

definition vim_validate_line ::
  "string \<Rightarrow> nat \<Rightarrow> string list \<times> string list \<times> string list \<Rightarrow>
   string list \<times> string list \<times> string list" where
  "vim_validate_line line lineNum acc =
     (case acc of (es, ws, ss) \<Rightarrow>
        (let ws1 = (if str_includes line ''map'' \<and> \<not> str_includes line ''noremap'' \<and>
                       str_includes line ''<leader>''
                    then ws @ [line_message lineNum ''Consider using noremap for leader key mappings'']
                    else ws);
             ss1 = (if str_includes line ''set'' \<and> str_includes line ''='' \<and>
                       \<not> str_includes line [dquote]
                    then ss @ [line_message lineNum ''Consider quoting string values in set commands'']
                    else ss);
             ws2 = (if str_includes line ''Plug'' \<and> \<not> str_includes line ''call plug#begin''
                    then ws1 @ [line_message lineNum
                                  ''Plugin without plug#begin() - ensure vim-plug is installed'']
                    else ws1);
             ss2 = (if str_includes line ''colorscheme'' \<and> \<not> str_includes line ''try''
                    then ss1 @ [line_message lineNum ''Consider wrapping colorscheme in try-catch'']
                    else ss1)
         in (es, ws2, ss2)))"

definition VimParser_validate :: "string \<Rightarrow> js_error + ValidationResult" where
  "VimParser_validate content =
     Inr (validation_of (validate_lines vim_validate_line (split newline content) 0 ([], [], [])))"

definition VimParser_parse :: "DotfileConfig \<Rightarrow> js_error + ParsedConfig" where
  "VimParser_parse config =
     (let content = cfg_content config;
          lines = split newline content
      in case vim_parse_lines lines
                (\<lparr>vd_settings = Map.empty, vd_keyMappings = Map.empty, vd_plugins = [],
                  vd_functions = [], vd_autocmds = [], vd_lineCount = length lines\<rparr>, []) of
           (st, comments) \<Rightarrow>
             (case VimParser_validate content of
                Inl error \<Rightarrow> Inl error
              | Inr validation \<Rightarrow>
                  Inr \<lparr>pc_data = OfVim st,
                       pc_variables = Map.empty,
                       pc_imports = [],
                       pc_comments = comments,
                       pc_validation = validation_literal\<rparr>))"

subsection \<open>\<^verbatim>\<open>GitParser\<close>\<close>

text \<open>\<^verbatim>\<open>/^\[([^\]]+)\]$/\<close>\<close>

definition git_sectionRegex :: regex where
  "git_sectionRegex =
     [Bol, Atom (Is (Ch CHR ''['')), Grp 1 [Plus (NotIn [Ch CHR '']''])], Atom (Is (Ch CHR '']'')), Eol]"

text \<open>\<^verbatim>\<open>/^([^=]+)\s*=\s*(.+)$/\<close>\<close>

definition git_kvRegex :: regex where
  "git_kvRegex =
     [Bol, Grp 1 [Plus (NotIn [Ch CHR ''=''])], Star (Is Space), Atom (Is (Ch CHR ''='')),
      Star (Is Space), Grp 2 [Plus Dot], Eol]"

text \<open>\<^verbatim>\<open>/^[^=]+\s*=\s*.+$/\<close>, of \<^verbatim>\<open>GitParser.validate\<close>\<close>

definition git_validRegex :: regex where
  "git_validRegex =
     [Bol, Plus (NotIn [Ch CHR ''='']), Star (Is Space), Atom (Is (Ch CHR ''='')),
      Star (Is Space), Plus Dot, Eol]"

text \<open>\<^verbatim>\<open>GitParser.parseValue\<close>\<close>

definition GitParser_parseValue :: "string \<Rightarrow> js_value" where
  "GitParser_parseValue v =
     (let trimmed = trim v
      in if trimmed = ''true'' then JBool True
         else if trimmed = ''false'' then JBool False
         else if \<not> isNaN_Number trimmed then JNumber trimmed
         else if (startsWith trimmed [dquote] \<and> endsWith trimmed [dquote]) \<or>
                 (startsWith trimmed [squote] \<and> endsWith trimmed [squote])
           then JString (slice_1_m1 trimmed)
         else JString trimmed)"

text \<open>
  \<^verbatim>\<open>sections[currentSection]\<close> also finds what the object inherits, and
  \<^verbatim>\<open>Object.prototype\<close> is one object, shared by every object of the program. A call is
  modelled from the state in which \<^verbatim>\<open>Object.prototype\<close> has the members the language gives
  it, and what the call itself writes there is part of its state: under a section named
  \<^verbatim>\<open>__proto__\<close>, \<^verbatim>\<open>sections[currentSection]\<close> is \<^verbatim>\<open>Object.prototype\<close> itself, and the
  assignment \<^verbatim>\<open>sections[currentSection][key] = parsedValue\<close> gives it the property, which
  every later read of a missing property then finds.

  What is inherited under a name is a value written by this call, one of the built-in
  functions (\<^verbatim>\<open>constructor\<close> is \<^verbatim>\<open>Object\<close>), or, for \<^verbatim>\<open>__proto__\<close>, \<^verbatim>\<open>Object.prototype\<close>.
\<close>

datatype inherited = Primitive js_value | BuiltIn string | ThePrototype

definition inherited_member :: "(string \<rightharpoonup> js_value) \<Rightarrow> string \<Rightarrow> inherited option" where
  "inherited_member written name =
     (case written name of
        Some v \<Rightarrow> Some (Primitive v)
      | None \<Rightarrow>
          if name = ''__proto__'' then Some ThePrototype
          else if name \<in> set Object_prototype then Some (BuiltIn name)
          else None)"

text \<open>
  What the model leaves to the JavaScript engine: the arithmetic of \<^verbatim>\<open>Number\<close>, of which
  the parser needs, for the text of a numeric literal, whether \<^verbatim>\<open>Number(text)\<close> is zero
  and what \<^verbatim>\<open>String(Number(text))\<close> is; and the message of the \<^verbatim>\<open>TypeError\<close> of an
  assignment that strict code may not make, from what is assigned to and the key.
\<close>

record Engine =
  number_is_zero :: "string \<Rightarrow> bool"
  number_to_string :: "string \<Rightarrow> string"
  assignment_message :: "inherited option \<Rightarrow> string \<Rightarrow> string"

definition TypeError :: "string \<Rightarrow> js_error" where
  "TypeError msg = \<lparr>e_name = ''TypeError'', e_message = msg\<rparr>"

text \<open>The truth value of a stored value, and the property key it is as an index.\<close>

definition ToBoolean :: "Engine \<Rightarrow> js_value \<Rightarrow> bool" where
  "ToBoolean engine v =
     (case v of
        JString s \<Rightarrow> s \<noteq> []
      | JBool b \<Rightarrow> b
      | JNumber text \<Rightarrow> \<not> number_is_zero engine text)"

definition ToPropertyKey :: "Engine \<Rightarrow> js_value \<Rightarrow> string" where
  "ToPropertyKey engine v =
     (case v of
        JString s \<Rightarrow> s
      | JBool b \<Rightarrow> if b then ''true'' else ''false''
      | JNumber text \<Rightarrow> number_to_string engine text)"

text \<open>
  The properties of a built-in function that an assignment cannot set: \<^verbatim>\<open>name\<close> and
  \<^verbatim>\<open>length\<close> are its own and not writable, as is the \<^verbatim>\<open>prototype\<close> of \<^verbatim>\<open>Object\<close>, and
  \<^verbatim>\<open>caller\<close> and \<^verbatim>\<open>arguments\<close> are accessors of \<^verbatim>\<open>Function.prototype\<close> whose setter throws.
\<close>

definition read_only :: "string \<Rightarrow> string \<Rightarrow> bool" where
  "read_only member key \<longleftrightarrow>
     key \<in> set [''name'', ''length'', ''caller'', ''arguments''] \<or>
     (member = ''constructor'' \<and> key = ''prototype'')"

text \<open>
  The local variables of the loop of \<^verbatim>\<open>GitParser.parse\<close>, and \<open>gs_prototype\<close>: the
  properties that the call has given \<^verbatim>\<open>Object.prototype\<close>.
\<close>

record GitState =
  gs_sections :: "string \<rightharpoonup> (string \<rightharpoonup> js_value)"
  gs_aliases :: "string \<rightharpoonup> js_value"
  gs_remotes :: "string \<rightharpoonup> js_value"
  gs_comments :: "string list"
  gs_currentSection :: string
  gs_prototype :: "string \<rightharpoonup> js_value"

text \<open>The truth value of \<^verbatim>\<open>sections[name]\<close>.\<close>

definition has_section :: "Engine \<Rightarrow> GitState \<Rightarrow> string \<Rightarrow> bool" where
  "has_section engine st name =
     (case gs_sections st name of
        Some section \<Rightarrow> True
      | None \<Rightarrow>
          (case inherited_member (gs_prototype st) name of
             None \<Rightarrow> False
           | Some (Primitive v) \<Rightarrow> ToBoolean engine v
           | Some (BuiltIn member) \<Rightarrow> True
           | Some ThePrototype \<Rightarrow> True))"

text \<open>
  \<^verbatim>\<open>currentSection.split('"')[1]\<close>: the second piece, and when there is none, what the array
  inherits under \<^verbatim>\<open>1\<close>; \<open>None\<close> is \<^verbatim>\<open>undefined\<close>.
\<close>

definition remoteName_of :: "GitState \<Rightarrow> string \<Rightarrow> js_value option" where
  "remoteName_of st currentSection =
     (case split dquote currentSection of
        a # piece # rest \<Rightarrow> Some (JString piece)
      | _ \<Rightarrow> gs_prototype st ''1'')"

text \<open>
  The body of that loop for one line; \<open>Inl\<close> is the error it throws. The methods are strict
  code, so the last assignment, \<^verbatim>\<open>sections[currentSection][key] = parsedValue\<close>, throws a
  \<^verbatim>\<open>TypeError\<close> when it cannot set the property. Under a section with an entry of its own
  it sets it. Under a section that has none, it assigns to what \<^verbatim>\<open>sections\<close> inherits under
  that name: to \<^verbatim>\<open>Object.prototype\<close>, which takes the property; to a built-in function,
  which takes it unless it is read-only (the function is not part of the state: nothing
  reads it); to a string, boolean or number, which cannot take a property. Everywhere the
  key \<^verbatim>\<open>__proto__\<close> is the inherited setter, which ignores the value.
\<close>

definition git_parse_line :: "Engine \<Rightarrow> string \<Rightarrow> GitState \<Rightarrow> js_error + GitState" where
  "git_parse_line engine raw st =
     (let line = trim raw
      in if line = [] then Inr st
         else if startsWith line ''#''
           then Inr (st\<lparr>gs_comments := gs_comments st @ [trim (substring1 line)]\<rparr>)
         else
           (case (case match line git_sectionRegex of
                    Some sectionMatch \<Rightarrow> group sectionMatch 1
                  | None \<Rightarrow> None) of
              Some name \<Rightarrow>
                Inr (st\<lparr>gs_currentSection := name,
                         gs_sections :=
                           (if \<not> has_section engine st name
                            then (gs_sections st)(name \<mapsto> Map.empty)
                            else gs_sections st)\<rparr>)
            | None \<Rightarrow>
                (case match line git_kvRegex of
                   None \<Rightarrow> Inr st
                 | Some kvMatch \<Rightarrow>
                     (case (group kvMatch 1, group kvMatch 2) of
                        (Some key, Some v) \<Rightarrow>
                          if gs_currentSection st = [] then Inr st
                          else
                            (let currentSection = gs_currentSection st;
                                 parsedValue = GitParser_parseValue v;
                                 st1 = (if currentSection = ''alias''
                                        then st\<lparr>gs_aliases := js_set (gs_aliases st) key parsedValue\<rparr>
                                        else st);
                                 st2 = (if startsWith currentSection ''remote''
                                        then (case remoteName_of st1 currentSection of
                                                Some remoteName \<Rightarrow>
                                                  if ToBoolean engine remoteName
                                                  then st1\<lparr>gs_remotes :=
                                                         js_set (gs_remotes st1)
                                                           (ToPropertyKey engine remoteName) parsedValue\<rparr>
                                                  else st1
                                              | None \<Rightarrow> st1)
                                        else st1)
                             in (case gs_sections st2 currentSection of
                                   Some section \<Rightarrow>
                                     Inr (st2\<lparr>gs_sections :=
                                           (gs_sections st2)(currentSection \<mapsto> js_set section key parsedValue)\<rparr>)
                                 | None \<Rightarrow>
                                     (let target = inherited_member (gs_prototype st2) currentSection;
                                          error = TypeError (assignment_message engine target key)
                                      in case target of
                                           Some ThePrototype \<Rightarrow>
                                             Inr (st2\<lparr>gs_prototype :=
                                                   js_set (gs_prototype st2) key parsedValue\<rparr>)
                                         | Some (BuiltIn member) \<Rightarrow>
                                             if read_only member key then Inl error else Inr st2
                                         | Some (Primitive p) \<Rightarrow>
                                             if key = ''__proto__'' then Inr st2 else Inl error
                                         | None \<Rightarrow> Inl error)))
                      | _ \<Rightarrow> Inr st))))"

fun git_parse_lines :: "Engine \<Rightarrow> string list \<Rightarrow> GitState \<Rightarrow> js_error + GitState" where
  "git_parse_lines engine [] st = Inr st"
| "git_parse_lines engine (raw # rest) st =
     (case git_parse_line engine raw st of
        Inl error \<Rightarrow> Inl error
      | Inr st' \<Rightarrow> git_parse_lines engine rest st')"

text \<open>The body of the loop of \<^verbatim>\<open>GitParser.validate\<close> for the line of that number.\<close>

definition git_validate_line ::
  "string \<Rightarrow> nat \<Rightarrow> string list \<times> string list \<times> string list \<Rightarrow>
   string list \<times> string list \<times> string list" where
  "git_validate_line line lineNum acc =
     (case acc of (es, ws, ss) \<Rightarrow>
        (let es1 = (if str_includes line ''='' \<and> match line git_validRegex = None
                    then es @ [line_message lineNum ''Invalid key-value format''] else es);
             es2 = (if startsWith line ''['' \<and> \<not> endsWith line '']''
                    then es1 @ [line_message lineNum ''Unclosed section header''] else es1);
             ss1 = (if str_includes line ''user.name'' \<and> \<not> str_includes line ''user.email''
                    then ss @ [line_message lineNum ''Consider setting user.email along with user.name'']
                    else ss);
             ss2 = (if str_includes line ''core.editor'' \<and> str_includes line ''vim'' \<and>
                       \<not> str_includes line ''nano''
                    then ss1 @ [line_message lineNum
                                  ''Consider using nano for core.editor if vim is not available'']
                    else ss1)
         in (es2, ws, ss2)))"

definition GitParser_validate :: "string \<Rightarrow> js_error + ValidationResult" where
  "GitParser_validate content =
     Inr (validation_of (validate_lines git_validate_line (split newline content) 0 ([], [], [])))"

text \<open>
  \<^verbatim>\<open>GitParser.parse\<close>: the \<^verbatim>\<open>catch\<close> of the method makes an error thrown in the loop the
  failure it returns.
\<close>

definition GitParser_parse :: "Engine \<Rightarrow> DotfileConfig \<Rightarrow> js_error + ParsedConfig" where
  "GitParser_parse engine config =
     (let content = cfg_content config;
          lines = split newline content
      in case git_parse_lines engine lines
                \<lparr>gs_sections = Map.empty, gs_aliases = Map.empty, gs_remotes = Map.empty,
                 gs_comments = [], gs_currentSection = [], gs_prototype = Map.empty\<rparr> of
           Inl error \<Rightarrow> Inl error
         | Inr st \<Rightarrow>
             (case GitParser_validate content of
                Inl error \<Rightarrow> Inl error
              | Inr validation \<Rightarrow>
                  Inr \<lparr>pc_data = OfGit \<lparr>gd_sections = gs_sections st, gd_aliases = gs_aliases st,
                                        gd_remotes = gs_remotes st, gd_lineCount = length lines\<rparr>,
                       pc_variables = Map.empty,
                       pc_imports = [],
                       pc_comments = gs_comments st,
                       pc_validation = validation_literal\<rparr>))"

subsection \<open>\<^verbatim>\<open>SimpleParser\<close>\<close>

definition SimpleParser_parse :: "DotfileConfig \<Rightarrow> js_error + ParsedConfig" where
  "SimpleParser_parse config =
     (let content = cfg_content config;
          lines = split newline content
      in Inr \<lparr>pc_data = OfSimple \<lparr>sd_content = content, sd_lines = length lines\<rparr>,
              pc_variables = Map.empty,
              pc_imports = [],
              pc_comments = map trim (filter (\<lambda>line. startsWith (trim line) ''#'') lines),
              pc_validation = validation_literal\<rparr>)"

definition SimpleParser_validate :: "string \<Rightarrow> js_error + ValidationResult" where
  "SimpleParser_validate content =
     Inr \<lparr>isValid = True, errors = [], warnings = [], suggestions = []\<rparr>"

subsection \<open>\<^verbatim>\<open>ParserFactory\<close>\<close>

text \<open>
  The four classes; a \<^verbatim>\<open>SimpleParser\<close> is built with the name of its type.
  \<^verbatim>\<open>createParser\<close> is the factory's choice, and \<open>parse\<close> and \<open>validate\<close> are the calls
  of the methods on a parser, on the engine that runs them.
\<close>

datatype parser = BashParser | VimParser | GitParser | SimpleParser string

fun createParser :: "ConfigType \<Rightarrow> parser" where
  "createParser Bash = BashParser"
| "createParser Zsh = BashParser"
| "createParser Vim = VimParser"
| "createParser Git = GitParser"
| "createParser Ssh = SimpleParser ''ssh''"
| "createParser Vscode = SimpleParser ''vscode''"
| "createParser System = SimpleParser ''system''"
| "createParser Custom = SimpleParser ''custom''"

fun parse :: "Engine \<Rightarrow> parser \<Rightarrow> DotfileConfig \<Rightarrow> js_error + ParsedConfig" where
  "parse engine BashParser config = BashParser_parse config"
| "parse engine VimParser config = VimParser_parse config"
| "parse engine GitParser config = GitParser_parse engine config"
| "parse engine (SimpleParser t) config = SimpleParser_parse config"

fun validate :: "parser \<Rightarrow> string \<Rightarrow> js_error + ValidationResult" where
  "validate BashParser content = BashParser_validate content"
| "validate VimParser content = VimParser_validate content"
| "validate GitParser content = GitParser_validate content"
| "validate (SimpleParser t) content = SimpleParser_validate content"

section \<open>The exclusion as the specification states it\<close>

text \<open>
  The specification speaks of patterns of literal characters and \<^verbatim>\<open>*\<close>, and of a path that
  the pattern, with each \<^verbatim>\<open>*\<close> read as \<^verbatim>\<open>.*\<close>, matches somewhere. The definitions here
  are that statement, not the code: \<open>glob_accepts pattern s\<close> says that \<open>s\<close> as a whole is
  what the pattern denotes, a \<^verbatim>\<open>*\<close> standing for any run of characters that \<^verbatim>\<open>.\<close> matches
  and every other character for itself; \<open>matches_somewhere\<close> that a part of the path is
  accepted.
\<close>

definition glob_pattern :: "string \<Rightarrow> bool" where
  "glob_pattern pattern \<longleftrightarrow> list_all (\<lambda>c. c = CHR ''*'' \<or> \<not> isSyntaxCharacter c) pattern"

fun glob_accepts :: "string \<Rightarrow> string \<Rightarrow> bool" where
  "glob_accepts [] s = (s = [])"
| "glob_accepts (c # pattern) s =
     (if c = CHR ''*''
      then (\<exists>u v. s = u @ v \<and> (\<forall>x \<in> set u. \<not> isLineTerminator x) \<and> glob_accepts pattern v)
      else (\<exists>v. s = c # v \<and> glob_accepts pattern v))"

definition matches_somewhere :: "string \<Rightarrow> string \<Rightarrow> bool" where
  "matches_somewhere pattern path \<longleftrightarrow>
     (\<exists>pre mid post. path = pre @ mid @ post \<and> glob_accepts pattern mid)"

definition spec_shouldExclude :: "string \<Rightarrow> string list option \<Rightarrow> bool" where
  "spec_shouldExclude path patterns =
     (case patterns of
        None \<Rightarrow> False
      | Some ps \<Rightarrow> \<exists>pattern \<in> set ps. matches_somewhere pattern path)"

text \<open>The regular expression that \<^verbatim>\<open>new RegExp\<close> builds for such a pattern.\<close>

definition glob_regex :: "string \<Rightarrow> regex" where
  "glob_regex pattern = map (\<lambda>c. if c = CHR ''*'' then Star Dot else Atom (Is (Ch c))) pattern"

section \<open>The scans that the model decides\<close>

text \<open>
  The walk of the model has a depth, and its exclusion knows the patterns that \<open>RegExp\<close>
  builds or refuses. \<open>pattern_modelled\<close> says that a pattern is one of these.
  \<open>nests_below depth fs dirPath\<close> says that the directories under \<open>dirPath\<close> nest less than
  \<open>depth\<close> deep, \<open>dirPath\<close> counted; a directory that cannot be read has nothing below it.
  \<open>within_model\<close> says of a scan that each requested path that is a directory nests below
  the depth and is walked with modelled patterns.
\<close>

definition pattern_modelled :: "string \<Rightarrow> bool" where
  "pattern_modelled pattern =
     (case RegExp (replace_stars pattern) of
        Unmodelled \<Rightarrow> False
      | Returns regex \<Rightarrow> True
      | Throws e \<Rightarrow> True)"

definition patterns_modelled :: "ScanOptions \<Rightarrow> bool" where
  "patterns_modelled options =
     (case excludePatterns options of
        None \<Rightarrow> True
      | Some patterns \<Rightarrow> list_all pattern_modelled patterns)"

primrec nests_below :: "nat \<Rightarrow> FS \<Rightarrow> string \<Rightarrow> bool" where
  "nests_below 0 fs dirPath = False"
| "nests_below (Suc depth) fs dirPath =
     (case readdir fs dirPath of
        Inl e \<Rightarrow> True
      | Inr entries \<Rightarrow>
          list_all (\<lambda>entry. d_kind entry = IsDirectory \<longrightarrow>
                             nests_below depth fs (join dirPath (d_name entry))) entries)"

definition within_model :: "nat \<Rightarrow> Process \<Rightarrow> FS \<Rightarrow> ScanOptions \<Rightarrow> bool" where
  "within_model depth pr fs options =
     list_all
       (\<lambda>path. case stat fs (resolvePath pr path) of
                  Inl e \<Rightarrow> True
                | Inr stats \<Rightarrow>
                    st_kind stats = IsDirectory \<longrightarrow>
                      patterns_modelled options \<and> nests_below depth fs (resolvePath pr path))
       (case paths options of Some ps \<Rightarrow> ps | None \<Rightarrow> DEFAULT_SCAN_PATHS)"

section \<open>Examples\<close>

text \<open>
  The error of Node for a path that does not exist, a small file system and the options
  and the process that the examples below run in.
\<close>

definition ENOENT :: "string \<Rightarrow> string \<Rightarrow> js_error" where
  "ENOENT syscall path =
     Error (''ENOENT: no such file or directory, '' @ syscall @ '' '' @ [CHR 0x27] @ path @ [CHR 0x27])"

definition example_fs :: FS where
  "example_fs =
     \<lparr>stat = (\<lambda>p.
         if p = ''/home/u'' then Inr \<lparr>st_kind = IsDirectory, st_size = 4096, st_mtime = 1700000000000\<rparr>
         else if p = ''/home/u/.bashrc'' then Inr \<lparr>st_kind = IsFile, st_size = 32, st_mtime = 1700000000000\<rparr>
         else if p = ''/home/u/big.conf'' then Inr \<lparr>st_kind = IsFile, st_size = 11534336, st_mtime = 1700000000000\<rparr>
         else Inl (ENOENT ''stat'' p)),
      readFile = (\<lambda>p.
         if p = ''/home/u/.bashrc'' then Inr ''export PATH=$PATH:/usr/local/bin''
         else if p = ''/home/u/big.conf'' then Inr ''# eleven mebibytes''
         else Inl (ENOENT ''open'' p)),
      readdir = (\<lambda>p.
         if p = ''/home/u''
         then Inr [\<lparr>d_name = ''.bashrc'', d_kind = IsFile\<rparr>, \<lparr>d_name = ''big.conf'', d_kind = IsFile\<rparr>]
         else Inl (ENOENT ''scandir'' p))\<rparr>"

definition no_options :: ScanOptions where
  "no_options = \<lparr>paths = None, includeHidden = None, maxFileSize = None, excludePatterns = None, useAI = None\<rparr>"

definition example_process :: Process where
  "example_process = \<lparr>homeDir = ''/home/u'', cwd = ''/work''\<rparr>"

definition bashrc_record :: DotfileConfig where
  "bashrc_record =
     \<lparr>cfg_path = ''/home/u/.bashrc'', cfg_type = Kind Bash,
      cfg_content = ''export PATH=$PATH:/usr/local/bin'',
      cfg_lastModified = 1700000000000, cfg_size = 32, cfg_dependencies = [],
      cfg_isActive = True, cfg_backupStatus = Not_backed_up\<rparr>"

text \<open>
  A directory \<^verbatim>\<open>/srv\<close> with a file, a subdirectory of two files and a log file; the options
  of a scan of it and of a path that does not exist, hidden entries included and log files
  excluded; and the record of a file of it.
\<close>

definition nested_fs :: FS where
  "nested_fs =
     \<lparr>stat = (\<lambda>p.
         if p = ''/srv'' then Inr \<lparr>st_kind = IsDirectory, st_size = 4096, st_mtime = 1700000000000\<rparr>
         else if p = ''/srv/.vimrc'' then Inr \<lparr>st_kind = IsFile, st_size = 10, st_mtime = 1700000000000\<rparr>
         else if p = ''/srv/conf'' then Inr \<lparr>st_kind = IsDirectory, st_size = 4096, st_mtime = 1700000000000\<rparr>
         else if p = ''/srv/conf/.gitconfig'' then Inr \<lparr>st_kind = IsFile, st_size = 6, st_mtime = 1700000000000\<rparr>
         else if p = ''/srv/conf/.bashrc'' then Inr \<lparr>st_kind = IsFile, st_size = 11, st_mtime = 1700000000000\<rparr>
         else if p = ''/srv/debug.log'' then Inr \<lparr>st_kind = IsFile, st_size = 5, st_mtime = 1700000000000\<rparr>
         else Inl (ENOENT ''stat'' p)),
      readFile = (\<lambda>p.
         if p = ''/srv/.vimrc'' then Inr ''set number''
         else if p = ''/srv/conf/.gitconfig'' then Inr ''[user]''
         else if p = ''/srv/conf/.bashrc'' then Inr ''alias ll=ls''
         else if p = ''/srv/debug.log'' then Inr ''debug''
         else Inl (ENOENT ''open'' p)),
      readdir = (\<lambda>p.
         if p = ''/srv''
         then Inr [\<lparr>d_name = ''.vimrc'', d_kind = IsFile\<rparr>, \<lparr>d_name = ''conf'', d_kind = IsDirectory\<rparr>,
                   \<lparr>d_name = ''debug.log'', d_kind = IsFile\<rparr>]
         else if p = ''/srv/conf''
         then Inr [\<lparr>d_name = ''.gitconfig'', d_kind = IsFile\<rparr>, \<lparr>d_name = ''.bashrc'', d_kind = IsFile\<rparr>]
         else Inl (ENOENT ''scandir'' p))\<rparr>"

definition nested_options :: ScanOptions where
  "nested_options =
     \<lparr>paths = Some [''/srv'', ''/nonexistent/file''], includeHidden = Some True, maxFileSize = None,
      excludePatterns = Some [''*.log''], useAI = Some False\<rparr>"

definition nested_record :: "string \<Rightarrow> ConfigType \<Rightarrow> string \<Rightarrow> DotfileConfig" where
  "nested_record path type content =
     \<lparr>cfg_path = path, cfg_type = Kind type, cfg_content = content,
      cfg_lastModified = 1700000000000, cfg_size = length content, cfg_dependencies = [],
      cfg_isActive = True, cfg_backupStatus = Not_backed_up\<rparr>"

text \<open>
  The lines of the shell example: an exported assignment, the assignment alone, and an
  alias; and the record of a file \<^verbatim>\<open>.bashrc\<close> with a given content.
\<close>

definition export_line :: string where
  "export_line = ''export FOO='' @ [dquote] @ ''bar'' @ [dquote]"

definition assignment_line :: string where
  "assignment_line = ''FOO='' @ [dquote] @ ''bar'' @ [dquote]"

definition alias_line :: string where
  "alias_line = ''alias ll='' @ [dquote] @ ''ls -la'' @ [dquote]"

definition config_of :: "string \<Rightarrow> DotfileConfig" where
  "config_of content =
     \<lparr>cfg_path = ''/home/u/.bashrc'', cfg_type = Kind Bash, cfg_content = content,
      cfg_lastModified = 1700000000000, cfg_size = length content, cfg_dependencies = [],
      cfg_isActive = True, cfg_backupStatus = Not_backed_up\<rparr>"

text \<open>
  A line that \<^verbatim>\<open>BashParser.parse\<close> takes as an assignment to that name: it is not empty,
  not a comment, and the pattern of variables matches it with that name.
\<close>

definition bash_assigns :: "string \<Rightarrow> string \<Rightarrow> bool" where
  "bash_assigns raw name \<longleftrightarrow>
     (let line = trim raw
      in line \<noteq> [] \<and> \<not> startsWith line ''#'' \<and>
         (case match line bash_varRegex of
            Some m \<Rightarrow> group m 1 = Some name
          | None \<Rightarrow> False))"

definition export_alias_content :: string where
  "export_alias_content = export_line @ [newline] @ alias_line"

definition assignment_alias_content :: string where
  "assignment_alias_content = export_line @ [newline] @ assignment_line @ [newline] @ alias_line"

definition unclosed_backtick_content :: string where
  "unclosed_backtick_content = ''echo '' @ [backtick] @ ''date''"

definition plug_begin_content :: string where
  "plug_begin_content =
     ''call plug#begin()'' @ [newline] @
     ''Plug '' @ [squote] @ ''tpope/vim-fugitive'' @ [squote] @ [newline] @
     ''call plug#end()''"

text \<open>
  An engine for the examples. Its arithmetic is right on the numbers that the examples
  write, decimal integers without sign or leading zero, and its messages are those of V8
  for the assignments that the examples make.
\<close>

definition example_message :: "inherited option \<Rightarrow> string \<Rightarrow> string" where
  "example_message target key =
     (case target of
        Some (BuiltIn member) \<Rightarrow>
          ''Cannot assign to read only property '' @ [squote] @ key @ [squote] @
          '' of function '' @ [squote] @ ''function '' @
          (if member = ''constructor'' then ''Object'' else member) @
          ''() { [native code] }'' @ [squote]
      | Some (Primitive v) \<Rightarrow>
          ''Cannot create property '' @ [squote] @ key @ [squote] @ '' on '' @
          (case v of
             JString s \<Rightarrow> ''string '' @ [squote] @ s @ [squote]
           | JBool b \<Rightarrow> ''boolean '' @ [squote] @ (if b then ''true'' else ''false'') @ [squote]
           | JNumber text \<Rightarrow> ''number '' @ [squote] @ text @ [squote])
      | _ \<Rightarrow> ''Cannot set properties of undefined (setting '' @ [squote] @ key @ [squote] @ '')'')"

definition example_engine :: Engine where
  "example_engine =
     \<lparr>number_is_zero = (\<lambda>text. text = ''0''),
      number_to_string = (\<lambda>text. text),
      assignment_message = example_message\<rparr>"

text \<open>
  Three files for \<^verbatim>\<open>GitParser\<close>: a section with a key; a section named after a member of
  \<^verbatim>\<open>Object.prototype\<close>, with a key that the member has read-only; and a section
  \<^verbatim>\<open>__proto__\<close> whose key is then the name of a section.
\<close>

definition user_content :: string where
  "user_content = ''[user]'' @ [newline] @ ''name = x''"

definition constructor_name_content :: string where
  "constructor_name_content = ''[constructor]'' @ [newline] @ ''name=x''"

definition proto_content :: string where
  "proto_content =
     ''[__proto__]'' @ [newline] @ ''foo=1'' @ [newline] @ ''[foo]'' @ [newline] @ ''bar=2''"

section \<open>Properties of the scanner\<close>

subsection \<open>Strings and the category of an error\<close>

lemma startsWith_iff: "startsWith s p \<longleftrightarrow> (\<exists>v. s = p @ v)"
  by (induction s p rule: startsWith.induct) auto

lemma str_includes_iff: "str_includes s p \<longleftrightarrow> (\<exists>u v. s = u @ p @ v)"
proof (induction s)
  case Nil
  then show ?case by auto
next
  case (Cons c cs)
  show ?case
  proof
    assume "str_includes (c # cs) p"
    then consider "startsWith (c # cs) p" | "str_includes cs p" by auto
    then show "\<exists>u v. c # cs = u @ p @ v"
    proof cases
      case 1
      then obtain v where "c # cs = p @ v" by (auto simp: startsWith_iff)
      then have "c # cs = [] @ p @ v" by simp
      then show ?thesis by blast
    next
      case 2
      then obtain u v where "cs = u @ p @ v" using Cons.IH by blast
      then have "c # cs = (c # u) @ p @ v" by simp
      then show ?thesis by blast
    qed
  next
    assume "\<exists>u v. c # cs = u @ p @ v"
    then obtain u v where uv: "c # cs = u @ p @ v" by blast
    show "str_includes (c # cs) p"
    proof (cases u)
      case Nil
      then have "startsWith (c # cs) p" using uv by (auto simp: startsWith_iff)
      then show ?thesis by simp
    next
      case (Cons a u')
      then have "cs = u' @ p @ v" using uv by simp
      then have "str_includes cs p" using Cons.IH by blast
      then show ?thesis by simp
    qed
  qed
qed

lemma str_includes_set: "str_includes s p \<Longrightarrow> set p \<subseteq> set s"
  by (auto simp: str_includes_iff)

lemma str_includes_append1: "str_includes a p \<Longrightarrow> str_includes (a @ b) p"
  by (auto simp: str_includes_iff) (metis append.assoc)

lemma decimal_digits: "set (decimal n) \<subseteq> set ''0123456789''"
proof (induction n rule: decimal.induct)
  case (1 n)
  have d: "m < 10 \<Longrightarrow> char_of (48 + m) \<in> set ''0123456789''" for m :: nat
  proof -
    assume "m < 10"
    then have "m \<in> {0, 1, 2, 3, 4, 5, 6, 7, 8, 9}" by auto
    then show ?thesis by (auto simp: char_of_eq_iff)
  qed
  show ?case
  proof (cases "n < 10")
    case True
    then show ?thesis using d[of n] by (subst decimal.simps) simp
  next
    case False
    have "n mod 10 < 10" by simp
    then have "char_of (48 + n mod 10) \<in> set ''0123456789''" by (rule d)
    then show ?thesis using False 1 by (subst decimal.simps) auto
  qed
qed

lemma toLowerCase_append: "toLowerCase (a @ b) = toLowerCase a @ toLowerCase b"
  by (simp add: toLowerCase_def)

lemma toLowerCase_digits: "set s \<subseteq> set ''0123456789'' \<Longrightarrow> toLowerCase s = s"
  unfolding toLowerCase_def
  by (induction s) (auto simp: toLowerChar_def)

lemma notin_sandwich:
  "c \<notin> set a \<Longrightarrow> c \<notin> set b \<Longrightarrow> set d \<subseteq> D \<Longrightarrow> c \<notin> D \<Longrightarrow> c \<notin> set (a @ d @ b)"
  by auto

lemma str_includes_lacks: "c \<in> set p \<Longrightarrow> c \<notin> set s \<Longrightarrow> \<not> str_includes s p"
  using str_includes_set by blast

lemma categorizeError_too_large:
  "categorizeError (Error (''File too large: '' @ decimal n @ '' bytes'')) = Size_limit"
proof -
  let ?m = "''file too large: '' @ decimal n @ '' bytes''"
  have l1: "toLowerCase ''File too large: '' = ''file too large: ''"
    by (simp add: toLowerCase_def toLowerChar_def char_of_eq_iff)
  have l2: "toLowerCase '' bytes'' = '' bytes''"
    by (simp add: toLowerCase_def toLowerChar_def char_of_eq_iff)
  have m: "toLowerCase (''File too large: '' @ decimal n @ '' bytes'') = ?m"
    by (simp only: toLowerCase_append toLowerCase_digits[OF decimal_digits] l1 l2)
  have p: "CHR ''p'' \<notin> set ?m"
    by (rule notin_sandwich[OF _ _ decimal_digits]) simp_all
  have c: "CHR ''c'' \<notin> set ?m"
    by (rule notin_sandwich[OF _ _ decimal_digits]) simp_all
  have n: "CHR ''n'' \<notin> set ?m"
    by (rule notin_sandwich[OF _ _ decimal_digits]) simp_all
  have 1: "\<not> str_includes ?m ''permission denied''"
    by (rule str_includes_lacks[OF _ p]) simp
  have 2: "\<not> str_includes ?m ''eacces''"
    by (rule str_includes_lacks[OF _ c]) simp
  have 3: "\<not> str_includes ?m ''no such file''"
    by (rule str_includes_lacks[OF _ n]) simp
  have 4: "\<not> str_includes ?m ''enoent''"
    by (rule str_includes_lacks[OF _ n]) simp
  have 5: "str_includes ?m ''too large''"
    by (rule str_includes_append1) simp
  show ?thesis
    unfolding categorizeError_def Error_def Let_def
    by (simp only: js_error.simps m 1 2 3 4 5 simp_thms if_True if_False)
qed

subsection \<open>The classification of a file\<close>

text \<open>
  Claim C4. A file whose base name is a name of \<^verbatim>\<open>CONFIG_TYPE_MAPPING\<close> gets that entry's
  kind, whatever its extension is: the lookup of the name comes first. The extension is
  looked up only when the name is not found, and the kind \<open>Custom\<close> of a name that contains
  a supported extension is given only after both lookups have failed (no entry of the
  table has the kind \<open>Custom\<close>).
\<close>

theorem determineConfigType_name_match_first:
  "(map_of CONFIG_TYPE_MAPPING (basename filePath) = Some kind \<longrightarrow>
      determineConfigType filePath = Some (Kind kind)) \<and>
   (\<not> js_in (basename filePath) CONFIG_TYPE_MAPPING \<longrightarrow>
      determineConfigType filePath =
        (if extname filePath \<noteq> [] \<and> js_in (extname filePath) CONFIG_TYPE_MAPPING
         then Some (js_get CONFIG_TYPE_MAPPING (extname filePath))
         else if \<exists>ext \<in> set SUPPORTED_EXTENSIONS. str_includes (basename filePath) ext
         then Some (Kind Custom) else None)) \<and>
   (determineConfigType filePath = Some (Kind Custom) \<longrightarrow>
      \<not> js_in (basename filePath) CONFIG_TYPE_MAPPING \<and>
      \<not> (extname filePath \<noteq> [] \<and> js_in (extname filePath) CONFIG_TYPE_MAPPING) \<and>
      (\<exists>ext \<in> set SUPPORTED_EXTENSIONS. str_includes (basename filePath) ext))"
proof -
  have no_custom: "js_get CONFIG_TYPE_MAPPING k \<noteq> Kind Custom" for k
  proof
    assume "js_get CONFIG_TYPE_MAPPING k = Kind Custom"
    then have "map_of CONFIG_TYPE_MAPPING k = Some Custom"
      by (simp add: js_get_def split: option.splits)
    then have "(k, Custom) \<in> set CONFIG_TYPE_MAPPING" by (rule map_of_SomeD)
    then show False by (simp add: CONFIG_TYPE_MAPPING_def)
  qed
  have a: "map_of CONFIG_TYPE_MAPPING (basename filePath) = Some kind \<longrightarrow>
      determineConfigType filePath = Some (Kind kind)"
    by (simp add: determineConfigType_def js_in_def js_get_def Let_def)
  have b: "\<not> js_in (basename filePath) CONFIG_TYPE_MAPPING \<longrightarrow>
      determineConfigType filePath =
        (if extname filePath \<noteq> [] \<and> js_in (extname filePath) CONFIG_TYPE_MAPPING
         then Some (js_get CONFIG_TYPE_MAPPING (extname filePath))
         else if \<exists>ext \<in> set SUPPORTED_EXTENSIONS. str_includes (basename filePath) ext
         then Some (Kind Custom) else None)"
    by (simp add: determineConfigType_def Let_def)
  have c: "determineConfigType filePath = Some (Kind Custom) \<longrightarrow>
      \<not> js_in (basename filePath) CONFIG_TYPE_MAPPING \<and>
      \<not> (extname filePath \<noteq> [] \<and> js_in (extname filePath) CONFIG_TYPE_MAPPING) \<and>
      (\<exists>ext \<in> set SUPPORTED_EXTENSIONS. str_includes (basename filePath) ext)"
    unfolding determineConfigType_def Let_def using no_custom
    by (simp split: if_splits)
  from a b c show ?thesis by blast
qed

text \<open>
  The three cases on files: \<^verbatim>\<open>.tmux.conf\<close> is a name of the table and has the extension
  \<^verbatim>\<open>.conf\<close>; \<^verbatim>\<open>my.bashrc\<close> is found by its extension; \<^verbatim>\<open>notes.conf.bak\<close> only contains a
  supported extension.
\<close>

theorem determineConfigType_name_match_first_witness:
  "map_of CONFIG_TYPE_MAPPING (basename ''/home/u/.tmux.conf'') = Some System \<and>
   extname ''/home/u/.tmux.conf'' = ''.conf'' \<and>
   determineConfigType ''/home/u/.tmux.conf'' = Some (Kind System) \<and>
   \<not> js_in (basename ''/etc/my.bashrc'') CONFIG_TYPE_MAPPING \<and>
   determineConfigType ''/etc/my.bashrc'' = Some (Kind Bash) \<and>
   determineConfigType ''/etc/notes.conf.bak'' = Some (Kind Custom) \<and>
   \<not> js_in (basename ''/etc/notes.conf.bak'') CONFIG_TYPE_MAPPING \<and>
   extname ''/etc/notes.conf.bak'' = ''.bak''"
proof -
  have b1: "basename ''/home/u/.tmux.conf'' = ''.tmux.conf''" by (simp add: basename_def)
  have e1: "extname ''/home/u/.tmux.conf'' = ''.conf''" by (simp add: extname_def basename_def)
  have h1: "map_of CONFIG_TYPE_MAPPING (basename ''/home/u/.tmux.conf'') = Some System"
    by (simp add: b1 CONFIG_TYPE_MAPPING_def)
  have r1: "determineConfigType ''/home/u/.tmux.conf'' = Some (Kind System)"
    using determineConfigType_name_match_first[of "''/home/u/.tmux.conf''" System] h1 by blast
  have b2: "basename ''/etc/my.bashrc'' = ''my.bashrc''" by (simp add: basename_def)
  have e2: "extname ''/etc/my.bashrc'' = ''.bashrc''" by (simp add: extname_def basename_def)
  have h2: "\<not> js_in (basename ''/etc/my.bashrc'') CONFIG_TYPE_MAPPING"
    by (simp add: b2 js_in_def CONFIG_TYPE_MAPPING_def Object_prototype_def)
  have r2: "determineConfigType ''/etc/my.bashrc'' = Some (Kind Bash)"
    using determineConfigType_name_match_first[of "''/etc/my.bashrc''" Bash] h2
    by (simp add: e2 js_in_def js_get_def CONFIG_TYPE_MAPPING_def)
  have b3: "basename ''/etc/notes.conf.bak'' = ''notes.conf.bak''" by (simp add: basename_def)
  have e3: "extname ''/etc/notes.conf.bak'' = ''.bak''" by (simp add: extname_def basename_def)
  have h3: "\<not> js_in (basename ''/etc/notes.conf.bak'') CONFIG_TYPE_MAPPING"
    by (simp add: b3 js_in_def CONFIG_TYPE_MAPPING_def Object_prototype_def)
  have r3: "determineConfigType ''/etc/notes.conf.bak'' = Some (Kind Custom)"
    using determineConfigType_name_match_first[of "''/etc/notes.conf.bak''" Custom] h3
    by (simp add: e3 b3 js_in_def js_get_def CONFIG_TYPE_MAPPING_def Object_prototype_def
        SUPPORTED_EXTENSIONS_def)
  from h1 e1 r1 h2 r2 r3 h3 e3 show ?thesis by blast
qed

subsection \<open>The size limit\<close>

lemma scanFile_too_large:
  assumes "stat fs filePath = Inr stats"
    and "int (st_size stats) > maxFileSize_or_default options"
  shows "scanFile fs options filePath tr =
           (Inl (Error (''File too large: '' @ decimal (st_size stats) @ '' bytes'')),
            tr @ [Stat filePath])"
  using assms by (simp add: scanFile_def)

lemma scanPath_file:
  assumes "stat fs path = Inr stats" and "st_kind stats = IsFile"
  shows "scanPath depth fs options path tr = Some (scanFile fs options path (tr @ [Stat path]))"
  using assms by (simp add: scanPath_def)

text \<open>
  Claim C2, as amended. The maximum in force is \<^verbatim>\<open>maxFileSize\<close> when it is supplied and
  not 0, and \<^verbatim>\<open>MAX_FILE_SIZE\<close> otherwise. For a file larger than that, \<^verbatim>\<open>scanFile\<close> fails
  with an error of the category \<open>Size_limit\<close> after its \<^verbatim>\<open>stat\<close> alone: the content is
  not read. When the file is a requested path, the loop of \<^verbatim>\<open>scan\<close> adds for it no
  record, exactly one \<^verbatim>\<open>ScanError\<close>, of that category, and two \<^verbatim>\<open>stat\<close> calls to the
  trace.
\<close>

theorem oversized_file_size_limit:
  assumes "stat fs filePath = Inr stats"
    and "int (st_size stats) > maxFileSize_or_default options"
  shows "scanFile fs options filePath tr =
           (Inl (Error (''File too large: '' @ decimal (st_size stats) @ '' bytes'')),
            tr @ [Stat filePath]) \<and>
         categorizeError (Error (''File too large: '' @ decimal (st_size stats) @ '' bytes'')) =
           Size_limit \<and>
         (st_kind stats = IsFile \<and> resolvePath pr path = filePath \<longrightarrow>
            scanPaths depth pr fs options (path # rest) cs es tr =
              scanPaths depth pr fs options rest cs
                (es @ [\<lparr>err_path = filePath,
                        err_message = ''File too large: '' @ decimal (st_size stats) @ '' bytes'',
                        err_type = Size_limit,
                        err_name = ''Error''\<rparr>])
                (tr @ [Stat filePath, Stat filePath]))"
proof -
  let ?error = "Error (''File too large: '' @ decimal (st_size stats) @ '' bytes'')"
  have f: "scanFile fs options filePath t = (Inl ?error, t @ [Stat filePath])" for t
    using assms by (rule scanFile_too_large)
  have c: "categorizeError ?error = Size_limit" by (rule categorizeError_too_large)
  have top: "scanPaths depth pr fs options (path # rest) cs es tr =
              scanPaths depth pr fs options rest cs
                (es @ [\<lparr>err_path = filePath,
                        err_message = ''File too large: '' @ decimal (st_size stats) @ '' bytes'',
                        err_type = Size_limit,
                        err_name = ''Error''\<rparr>])
                (tr @ [Stat filePath, Stat filePath])"
    if k: "st_kind stats = IsFile" and r: "resolvePath pr path = filePath"
  proof -
    have "scanPath depth fs options filePath tr =
            Some (Inl ?error, tr @ [Stat filePath, Stat filePath])"
      using scanPath_file[OF assms(1) k] f by simp
    then show ?thesis using r c by (simp add: Let_def) (simp add: Error_def)
  qed
  from f c top show ?thesis by blast
qed

text \<open>A file of 11 MiB as the only requested path, under the default maximum.\<close>

theorem oversized_file_size_limit_witness:
  "stat example_fs ''/home/u/big.conf'' =
     Inr \<lparr>st_kind = IsFile, st_size = 11534336, st_mtime = 1700000000000\<rparr> \<and>
   int 11534336 > maxFileSize_or_default (no_options\<lparr>paths := Some [''~/big.conf'']\<rparr>) \<and>
   resolvePath example_process ''~/big.conf'' = ''/home/u/big.conf'' \<and>
   scan 0 example_process example_fs 0 5 (no_options\<lparr>paths := Some [''~/big.conf'']\<rparr>) =
     Some (\<lparr>res_configs = [],
            res_metadata = \<lparr>totalFiles = 1, validConfigs = 0, duration = 5, startTime = 0, endTime = 5\<rparr>,
            res_errors = [\<lparr>err_path = ''/home/u/big.conf'',
                           err_message = ''File too large: 11534336 bytes'',
                           err_type = Size_limit,
                           err_name = ''Error''\<rparr>]\<rparr>,
           [Stat ''/home/u/big.conf'', Stat ''/home/u/big.conf''])"
proof -
  let ?stats = "\<lparr>st_kind = IsFile, st_size = 11534336, st_mtime = 1700000000000\<rparr>"
  let ?options = "no_options\<lparr>paths := Some [''~/big.conf'']\<rparr>"
  have s: "stat example_fs ''/home/u/big.conf'' = Inr ?stats"
    by (simp add: example_fs_def)
  have m: "int (st_size ?stats) > maxFileSize_or_default ?options"
    by (simp add: maxFileSize_or_default_def no_options_def MAX_FILE_SIZE_def)
  have r: "resolvePath example_process ''~/big.conf'' = ''/home/u/big.conf''"
    by (simp add: resolvePath_def example_process_def join_def normalize_def normalizeString_def)
  have d: "decimal 11534336 = ''11534336''" by (simp add: decimal.simps char_of_eq_iff)
  have "scanPaths 0 example_process example_fs ?options [''~/big.conf''] [] [] [] =
          Some ([], [\<lparr>err_path = ''/home/u/big.conf'',
                       err_message = ''File too large: 11534336 bytes'',
                       err_type = Size_limit,
                       err_name = ''Error''\<rparr>],
                [Stat ''/home/u/big.conf'', Stat ''/home/u/big.conf''])"
    using oversized_file_size_limit[OF s m, where pr = example_process and path = "''~/big.conf''"
        and depth = 0 and rest = "[]" and cs = "[]" and es = "[]" and tr = "[]"] r
    by (simp add: d)
  then have "scan 0 example_process example_fs 0 5 ?options =
     Some (\<lparr>res_configs = [],
            res_metadata = \<lparr>totalFiles = 1, validConfigs = 0, duration = 5, startTime = 0, endTime = 5\<rparr>,
            res_errors = [\<lparr>err_path = ''/home/u/big.conf'',
                           err_message = ''File too large: 11534336 bytes'',
                           err_type = Size_limit,
                           err_name = ''Error''\<rparr>]\<rparr>,
           [Stat ''/home/u/big.conf'', Stat ''/home/u/big.conf''])"
    by (simp add: scan_def no_options_def)
  with s m r show ?thesis by simp
qed

lemma resolve_home: "resolvePath example_process ''~'' = ''/home/u''"
  by (simp add: resolvePath_def example_process_def join_def normalize_def normalizeString_def)

lemma resolve_bashrc: "resolvePath example_process ''~/.bashrc'' = ''/home/u/.bashrc''"
  by (simp add: resolvePath_def example_process_def join_def normalize_def normalizeString_def)

lemma join_bashrc: "join ''/home/u'' ''.bashrc'' = ''/home/u/.bashrc''"
  by (simp add: join_def normalize_def normalizeString_def)

lemma join_big: "join ''/home/u'' ''big.conf'' = ''/home/u/big.conf''"
  by (simp add: join_def normalize_def normalizeString_def)

lemma type_bashrc: "determineConfigType ''/home/u/.bashrc'' = Some (Kind Bash)"
  by (simp add: determineConfigType_def basename_def js_in_def js_get_def CONFIG_TYPE_MAPPING_def)

lemma scanFile_bashrc:
  "maxFileSize options = None \<or> maxFileSize options = Some 0 \<Longrightarrow>
   scanFile example_fs options ''/home/u/.bashrc'' tr =
     (Inr [bashrc_record], tr @ [Stat ''/home/u/.bashrc'', ReadFile ''/home/u/.bashrc''])"
  by (auto simp add: scanFile_def example_fs_def maxFileSize_or_default_def MAX_FILE_SIZE_def
      type_bashrc bashrc_record_def)

text \<open>
  Claim C2 as stated fails twice. With \<^verbatim>\<open>maxFileSize: 0\<close> the file \<^verbatim>\<open>.bashrc\<close> of 32
  bytes exceeds the configured maximum, and yet it is read and yields a record and no
  error. And the file of 11 MiB, found by the walk of \<^verbatim>\<open>/home/u\<close> under the default
  maximum, leaves no \<^verbatim>\<open>ScanError\<close>: \<^verbatim>\<open>scanDirectory\<close> drops the failure.
\<close>

theorem size_limit_counterexample:
  "scan 0 example_process example_fs 0 5
     (no_options\<lparr>paths := Some [''~/.bashrc''], maxFileSize := Some 0\<rparr>) =
     Some (\<lparr>res_configs = [bashrc_record],
            res_metadata = \<lparr>totalFiles = 1, validConfigs = 1, duration = 5, startTime = 0, endTime = 5\<rparr>,
            res_errors = []\<rparr>,
           [Stat ''/home/u/.bashrc'', Stat ''/home/u/.bashrc'', ReadFile ''/home/u/.bashrc'']) \<and>
   scan (Suc 0) example_process example_fs 0 5
     (no_options\<lparr>paths := Some [''~''], includeHidden := Some True\<rparr>) =
     Some (\<lparr>res_configs = [bashrc_record],
            res_metadata = \<lparr>totalFiles = 1, validConfigs = 1, duration = 5, startTime = 0, endTime = 5\<rparr>,
            res_errors = []\<rparr>,
           [Stat ''/home/u'', Readdir ''/home/u'', Stat ''/home/u/.bashrc'',
            ReadFile ''/home/u/.bashrc'', Stat ''/home/u/big.conf''])"
proof -
  let ?o1 = "no_options\<lparr>paths := Some [''~/.bashrc''], maxFileSize := Some 0\<rparr>"
  let ?o2 = "no_options\<lparr>paths := Some [''~''], includeHidden := Some True\<rparr>"
  have s1: "stat example_fs ''/home/u/.bashrc'' =
              Inr \<lparr>st_kind = IsFile, st_size = 32, st_mtime = 1700000000000\<rparr>"
    by (simp add: example_fs_def)
  have p1: "scanPath 0 example_fs ?o1 ''/home/u/.bashrc'' [] =
              Some (Inr [bashrc_record],
                    [Stat ''/home/u/.bashrc'', Stat ''/home/u/.bashrc'', ReadFile ''/home/u/.bashrc''])"
    by (simp add: scanPath_def s1 scanFile_bashrc no_options_def)
  have a: "scanPaths 0 example_process example_fs ?o1 [''~/.bashrc''] [] [] [] =
             Some ([bashrc_record], [],
                   [Stat ''/home/u/.bashrc'', Stat ''/home/u/.bashrc'', ReadFile ''/home/u/.bashrc''])"
    by (simp add: resolve_bashrc p1 Let_def)
  have f2: "scanFile example_fs ?o2 ''/home/u/.bashrc'' tr =
             (Inr [bashrc_record], tr @ [Stat ''/home/u/.bashrc'', ReadFile ''/home/u/.bashrc''])" for tr
    by (rule scanFile_bashrc) (simp add: no_options_def)
  obtain e where f3: "scanFile example_fs ?o2 ''/home/u/big.conf'' tr =
             (Inl e, tr @ [Stat ''/home/u/big.conf''])" for tr
    by (simp add: scanFile_def example_fs_def maxFileSize_or_default_def MAX_FILE_SIZE_def no_options_def)
  have ih: "includeHidden ?o2 = Some True" by (simp add: no_options_def)
  have ex: "excludePatterns ?o2 = None" by (simp add: no_options_def)
  have rd: "readdir example_fs ''/home/u'' =
              Inr [\<lparr>d_name = ''.bashrc'', d_kind = IsFile\<rparr>, \<lparr>d_name = ''big.conf'', d_kind = IsFile\<rparr>]"
    by (simp add: example_fs_def)
  have d: "scanDirectory (Suc 0) example_fs ?o2 ''/home/u'' [Stat ''/home/u''] =
             Some (Inr [bashrc_record],
                   [Stat ''/home/u'', Readdir ''/home/u'', Stat ''/home/u/.bashrc'',
                    ReadFile ''/home/u/.bashrc'', Stat ''/home/u/big.conf''])"
    by (simp add: rd join_bashrc join_big Let_def shouldExclude_def f2 f3 ih ex
        del: ScanOptions.simps)
  have s2: "stat example_fs ''/home/u'' =
              Inr \<lparr>st_kind = IsDirectory, st_size = 4096, st_mtime = 1700000000000\<rparr>"
    by (simp add: example_fs_def)
  have b: "scanPaths (Suc 0) example_process example_fs ?o2 [''~''] [] [] [] =
             Some ([bashrc_record], [],
                   [Stat ''/home/u'', Readdir ''/home/u'', Stat ''/home/u/.bashrc'',
                    ReadFile ''/home/u/.bashrc'', Stat ''/home/u/big.conf''])"
    using d by (simp add: resolve_home scanPath_def s2 Let_def)
  show ?thesis
    using a b by (simp add: scan_def no_options_def)
qed

subsection \<open>What the walk does with a failure\<close>

text \<open>
  In the walk of a directory, an entry that is neither hidden nor excluded and whose scan
  fails, a file or a subdirectory, adds nothing: the loop goes on with the records it had.
\<close>

lemma walk_drops_failed_file:
  assumes "includeHidden options = Some True \<or> \<not> startsWith (d_name entry) ''.''"
    and "shouldExclude (join dirPath (d_name entry)) (excludePatterns options) = Returns False"
    and "d_kind entry = IsFile"
    and "scanFile fs options (join dirPath (d_name entry)) tr = (Inl e, tr')"
  shows "scanEntries recurse fs options dirPath (entry # entries) cs tr =
           scanEntries recurse fs options dirPath entries cs tr'"
  using assms by (auto simp: Let_def)

lemma walk_drops_failed_directory:
  assumes "includeHidden options = Some True \<or> \<not> startsWith (d_name entry) ''.''"
    and "shouldExclude (join dirPath (d_name entry)) (excludePatterns options) = Returns False"
    and "d_kind entry = IsDirectory"
    and "recurse (join dirPath (d_name entry)) tr = Some (Inl e, tr')"
  shows "scanEntries recurse fs options dirPath (entry # entries) cs tr =
           scanEntries recurse fs options dirPath entries cs tr'"
  using assms by (auto simp: Let_def)

subsection \<open>A path that does not exist, and the metadata\<close>

lemma categorizeError_ENOENT:
  "categorizeError (ENOENT ''stat'' ''/nonexistent/file'') = Not_found"
proof -
  have l: "toLowerCase (e_message (ENOENT ''stat'' ''/nonexistent/file'')) =
             ''enoent: no such file or directory, stat '' @ [CHR 0x27] @ ''/nonexistent/file'' @ [CHR 0x27]"
    by (simp add: ENOENT_def Error_def toLowerCase_def toLowerChar_def char_of_eq_iff)
  show ?thesis unfolding categorizeError_def Let_def l by simp
qed

text \<open>A scan within the model returns: no call of the walk is left without a result.\<close>

lemma some_pattern_modelled:
  "list_all pattern_modelled patterns \<Longrightarrow> some_pattern path patterns \<noteq> Unmodelled"
  by (induction patterns) (auto simp: pattern_modelled_def split: outcome.splits)

lemma shouldExclude_modelled:
  "patterns_modelled options \<Longrightarrow> shouldExclude path (excludePatterns options) \<noteq> Unmodelled"
  by (auto simp: shouldExclude_def patterns_modelled_def some_pattern_modelled split: option.splits)

lemma scanEntries_returns:
  assumes "patterns_modelled options"
    and "\<forall>entry \<in> set entries. d_kind entry = IsDirectory \<longrightarrow>
           (\<forall>tr. recurse (join dirPath (d_name entry)) tr \<noteq> None)"
  shows "scanEntries recurse fs options dirPath entries configs tr \<noteq> None"
  using assms(2)
proof (induction entries arbitrary: configs tr)
  case Nil
  then show ?case by simp
next
  case (Cons entry entries)
  have rest: "\<And>configs tr. scanEntries recurse fs options dirPath entries configs tr \<noteq> None"
    using Cons by simp
  have ex: "shouldExclude (join dirPath (d_name entry)) (excludePatterns options) \<noteq> Unmodelled"
    using assms(1) by (rule shouldExclude_modelled)
  have dir: "d_kind entry = IsDirectory \<Longrightarrow> recurse (join dirPath (d_name entry)) tr \<noteq> None"
    using Cons.prems by simp
  show ?case
    using rest ex dir
    by (auto simp: Let_def split: outcome.splits bool.splits prod.splits sum.splits option.splits)
qed

lemma scanDirectory_returns:
  "patterns_modelled options \<Longrightarrow> nests_below depth fs dirPath \<Longrightarrow>
   scanDirectory depth fs options dirPath tr \<noteq> None"
proof (induction depth arbitrary: dirPath tr)
  case 0
  then show ?case by simp
next
  case (Suc depth)
  show ?case
  proof (cases "readdir fs dirPath")
    case (Inl e)
    then show ?thesis by simp
  next
    case (Inr entries)
    have "\<forall>entry \<in> set entries. d_kind entry = IsDirectory \<longrightarrow>
           (\<forall>tr. scanDirectory depth fs options (join dirPath (d_name entry)) tr \<noteq> None)"
      using Suc Inr by (auto simp: list_all_iff)
    then show ?thesis
      using Inr Suc.prems(1) by (simp add: scanEntries_returns)
  qed
qed

lemma scanPath_returns:
  assumes "case stat fs path of
             Inl e \<Rightarrow> True
           | Inr stats \<Rightarrow> st_kind stats = IsDirectory \<longrightarrow>
                             patterns_modelled options \<and> nests_below depth fs path"
  shows "scanPath depth fs options path tr \<noteq> None"
  using assms scanDirectory_returns[of options depth fs path "tr @ [Stat path]"]
  by (auto simp: scanPath_def split: sum.splits)

lemma scanPaths_returns:
  assumes "list_all
       (\<lambda>path. case stat fs (resolvePath pr path) of
                  Inl e \<Rightarrow> True
                | Inr stats \<Rightarrow>
                    st_kind stats = IsDirectory \<longrightarrow>
                      patterns_modelled options \<and> nests_below depth fs (resolvePath pr path)) ps"
  shows "scanPaths depth pr fs options ps cs es tr \<noteq> None"
  using assms
proof (induction ps arbitrary: cs es tr)
  case Nil
  then show ?case by simp
next
  case (Cons path ps)
  have "scanPath depth fs options (resolvePath pr path) tr \<noteq> None"
    using Cons.prems by (intro scanPath_returns) simp
  moreover have "\<And>cs es tr. scanPaths depth pr fs options ps cs es tr \<noteq> None"
    using Cons by simp
  ultimately show ?case
    by (auto simp: Let_def split: option.splits prod.splits sum.splits)
qed

lemma scan_returns:
  "within_model depth pr fs options \<Longrightarrow> scan depth pr fs clock0 clock1 options \<noteq> None"
  using scanPaths_returns[where fs = fs and pr = pr and options = options and depth = depth
      and cs = "[]" and es = "[]" and tr = "[]"]
  by (auto simp: within_model_def scan_def Let_def split: option.splits prod.splits)

text \<open>With more depth left, the model returns what it returned.\<close>

lemma scanEntries_mono:
  assumes "\<And>p tr r. recurse p tr = Some r \<Longrightarrow> recurse' p tr = Some r"
  shows "scanEntries recurse fs options dirPath entries configs tr = Some r \<Longrightarrow>
         scanEntries recurse' fs options dirPath entries configs tr = Some r"
proof (induction entries arbitrary: configs tr)
  case Nil
  then show ?case by simp
next
  case (Cons entry entries)
  show ?case
    using Cons.prems Cons.IH assms
    by (auto simp: Let_def split: outcome.splits bool.splits prod.splits sum.splits option.splits if_splits)
qed

lemma scanDirectory_mono:
  "scanDirectory depth fs options dirPath tr = Some r \<Longrightarrow>
   scanDirectory (Suc depth) fs options dirPath tr = Some r"
proof (induction depth arbitrary: dirPath tr r)
  case 0
  then show ?case by simp
next
  case (Suc depth)
  show ?case
  proof (cases "readdir fs dirPath")
    case (Inl e)
    then show ?thesis using Suc.prems by simp
  next
    case (Inr entries)
    have "scanEntries (scanDirectory depth fs options) fs options dirPath entries [] (tr @ [Readdir dirPath]) = Some r"
      using Suc.prems Inr by simp
    then have "scanEntries (scanDirectory (Suc depth) fs options) fs options dirPath entries [] (tr @ [Readdir dirPath]) = Some r"
      by (rule scanEntries_mono[rotated]) (rule Suc.IH)
    then show ?thesis using Inr by simp
  qed
qed

lemma scanDirectory_deeper:
  "scanDirectory depth fs options dirPath tr = Some r \<Longrightarrow>
   scanDirectory (depth + extra) fs options dirPath tr = Some r"
  by (induction extra) (simp_all add: scanDirectory_mono del: scanDirectory.simps)

lemma scanPath_deeper:
  "scanPath depth fs options path tr = Some r \<Longrightarrow>
   scanPath (depth + extra) fs options path tr = Some r"
  by (auto simp: scanPath_def scanDirectory_deeper split: sum.splits if_splits)

lemma scanPaths_deeper:
  "scanPaths depth pr fs options ps cs es tr = Some r \<Longrightarrow>
   scanPaths (depth + extra) pr fs options ps cs es tr = Some r"
proof (induction ps arbitrary: cs es tr)
  case Nil
  then show ?case by simp
next
  case (Cons path ps)
  show ?case
  proof (cases "scanPath depth fs options (resolvePath pr path) tr")
    case None
    then show ?thesis using Cons.prems by (simp add: Let_def)
  next
    case (Some x)
    then have d: "scanPath (depth + extra) fs options (resolvePath pr path) tr = Some x"
      by (rule scanPath_deeper)
    show ?thesis
      using Cons.prems Cons.IH Some d
      by (cases x) (auto simp: Let_def split: sum.splits)
  qed
qed

lemma scan_deeper:
  "scan depth pr fs clock0 clock1 options = Some r \<Longrightarrow>
   scan (depth + extra) pr fs clock0 clock1 options = Some r"
  by (auto simp: scan_def Let_def scanPaths_deeper split: option.splits prod.splits)

lemma scan_counts:
  "scan depth pr fs clock0 clock1 options = Some (result, tr) \<Longrightarrow>
   totalFiles (res_metadata result) =
     length (case paths options of Some ps \<Rightarrow> ps | None \<Rightarrow> DEFAULT_SCAN_PATHS) \<and>
   validConfigs (res_metadata result) = length (res_configs result)"
  by (auto simp: scan_def Let_def split: option.splits prod.splits)

text \<open>The scan of \<^verbatim>\<open>/srv\<close> and of the path that does not exist, step by step.\<close>

lemma resolve_srv: "resolvePath example_process ''/srv'' = ''/srv''"
  by (simp add: resolvePath_def resolve_def normalizeString_def)

lemma resolve_nonexistent: "resolvePath pr ''/nonexistent/file'' = ''/nonexistent/file''"
  by (simp add: resolvePath_def resolve_def normalizeString_def)

lemma join_srv:
  "join ''/srv'' ''.vimrc'' = ''/srv/.vimrc''"
  "join ''/srv'' ''conf'' = ''/srv/conf''"
  "join ''/srv'' ''debug.log'' = ''/srv/debug.log''"
  "join ''/srv/conf'' ''.gitconfig'' = ''/srv/conf/.gitconfig''"
  "join ''/srv/conf'' ''.bashrc'' = ''/srv/conf/.bashrc''"
  by (simp_all add: join_def normalize_def normalizeString_def)

lemma type_srv:
  "determineConfigType ''/srv/.vimrc'' = Some (Kind Vim)"
  "determineConfigType ''/srv/conf/.gitconfig'' = Some (Kind Git)"
  "determineConfigType ''/srv/conf/.bashrc'' = Some (Kind Bash)"
  by (simp_all add: determineConfigType_def basename_def js_in_def js_get_def CONFIG_TYPE_MAPPING_def)

lemma exclude_srv:
  "shouldExclude ''/srv/.vimrc'' (Some [''*.log'']) = Returns False"
  "shouldExclude ''/srv/conf'' (Some [''*.log'']) = Returns False"
  "shouldExclude ''/srv/debug.log'' (Some [''*.log'']) = Returns True"
  "shouldExclude ''/srv/conf/.gitconfig'' (Some [''*.log'']) = Returns False"
  "shouldExclude ''/srv/conf/.bashrc'' (Some [''*.log'']) = Returns False"
  by (simp_all add: shouldExclude_def replace_stars_def RegExp_def isSyntaxCharacter_def test_def
      isLineTerminator_def)

lemma scanFile_srv:
  "scanFile nested_fs nested_options ''/srv/.vimrc'' tr =
     (Inr [nested_record ''/srv/.vimrc'' Vim ''set number''],
      tr @ [Stat ''/srv/.vimrc'', ReadFile ''/srv/.vimrc''])"
  "scanFile nested_fs nested_options ''/srv/conf/.gitconfig'' tr =
     (Inr [nested_record ''/srv/conf/.gitconfig'' Git ''[user]''],
      tr @ [Stat ''/srv/conf/.gitconfig'', ReadFile ''/srv/conf/.gitconfig''])"
  "scanFile nested_fs nested_options ''/srv/conf/.bashrc'' tr =
     (Inr [nested_record ''/srv/conf/.bashrc'' Bash ''alias ll=ls''],
      tr @ [Stat ''/srv/conf/.bashrc'', ReadFile ''/srv/conf/.bashrc''])"
  by (simp_all add: scanFile_def nested_fs_def nested_options_def maxFileSize_or_default_def
      MAX_FILE_SIZE_def type_srv nested_record_def)

lemma nested_option_fields:
  "includeHidden nested_options = Some True"
  "excludePatterns nested_options = Some [''*.log'']"
  "paths nested_options = Some [''/srv'', ''/nonexistent/file'']"
  by (simp_all add: nested_options_def)

lemma nested_readdir:
  "readdir nested_fs ''/srv'' =
     Inr [\<lparr>d_name = ''.vimrc'', d_kind = IsFile\<rparr>, \<lparr>d_name = ''conf'', d_kind = IsDirectory\<rparr>,
          \<lparr>d_name = ''debug.log'', d_kind = IsFile\<rparr>]"
  "readdir nested_fs ''/srv/conf'' =
     Inr [\<lparr>d_name = ''.gitconfig'', d_kind = IsFile\<rparr>, \<lparr>d_name = ''.bashrc'', d_kind = IsFile\<rparr>]"
  by (simp_all add: nested_fs_def)

lemma nested_stat:
  "stat nested_fs ''/srv'' = Inr \<lparr>st_kind = IsDirectory, st_size = 4096, st_mtime = 1700000000000\<rparr>"
  "stat nested_fs ''/nonexistent/file'' = Inl (ENOENT ''stat'' ''/nonexistent/file'')"
  by (simp_all add: nested_fs_def)

lemma scanDirectory_conf:
  "scanDirectory (Suc depth) nested_fs nested_options ''/srv/conf'' tr =
     Some (Inr [nested_record ''/srv/conf/.gitconfig'' Git ''[user]'',
                nested_record ''/srv/conf/.bashrc'' Bash ''alias ll=ls''],
           tr @ [Readdir ''/srv/conf'', Stat ''/srv/conf/.gitconfig'', ReadFile ''/srv/conf/.gitconfig'',
                 Stat ''/srv/conf/.bashrc'', ReadFile ''/srv/conf/.bashrc''])"
  by (simp add: nested_readdir nested_option_fields join_srv exclude_srv scanFile_srv Let_def)

lemma scanDirectory_srv:
  "scanDirectory (Suc (Suc depth)) nested_fs nested_options ''/srv'' tr =
     Some (Inr [nested_record ''/srv/.vimrc'' Vim ''set number'',
                nested_record ''/srv/conf/.gitconfig'' Git ''[user]'',
                nested_record ''/srv/conf/.bashrc'' Bash ''alias ll=ls''],
           tr @ [Readdir ''/srv'', Stat ''/srv/.vimrc'', ReadFile ''/srv/.vimrc'',
                 Readdir ''/srv/conf'', Stat ''/srv/conf/.gitconfig'', ReadFile ''/srv/conf/.gitconfig'',
                 Stat ''/srv/conf/.bashrc'', ReadFile ''/srv/conf/.bashrc''])"
  unfolding scanDirectory.simps(2)[of "Suc depth"]
  by (simp add: nested_readdir nested_option_fields join_srv exclude_srv scanFile_srv
      scanDirectory_conf Let_def del: scanDirectory.simps)

lemma e_name_ENOENT: "e_name (ENOENT syscall path) = ''Error''"
  by (simp add: ENOENT_def Error_def)

lemma scan_nested:
  "scan (Suc (Suc depth)) example_process nested_fs clock0 clock1 nested_options =
     Some (\<lparr>res_configs = [nested_record ''/srv/.vimrc'' Vim ''set number'',
                            nested_record ''/srv/conf/.gitconfig'' Git ''[user]'',
                            nested_record ''/srv/conf/.bashrc'' Bash ''alias ll=ls''],
            res_metadata = \<lparr>totalFiles = 2, validConfigs = 3, duration = clock1 - clock0,
                            startTime = clock0, endTime = clock1\<rparr>,
            res_errors = [\<lparr>err_path = ''/nonexistent/file'',
                           err_message = e_message (ENOENT ''stat'' ''/nonexistent/file''),
                           err_type = Not_found,
                           err_name = ''Error''\<rparr>]\<rparr>,
           [Stat ''/srv'', Readdir ''/srv'', Stat ''/srv/.vimrc'', ReadFile ''/srv/.vimrc'',
            Readdir ''/srv/conf'', Stat ''/srv/conf/.gitconfig'', ReadFile ''/srv/conf/.gitconfig'',
            Stat ''/srv/conf/.bashrc'', ReadFile ''/srv/conf/.bashrc'', Stat ''/nonexistent/file''])"
proof -
  have a: "scanPath (Suc (Suc depth)) nested_fs nested_options ''/srv'' [] =
             scanDirectory (Suc (Suc depth)) nested_fs nested_options ''/srv'' [Stat ''/srv'']"
    by (simp add: scanPath_def nested_stat del: scanDirectory.simps)
  have b: "scanPath (Suc (Suc depth)) nested_fs nested_options ''/nonexistent/file'' tr =
             Some (Inl (ENOENT ''stat'' ''/nonexistent/file''), tr @ [Stat ''/nonexistent/file''])" for tr
    by (simp add: scanPath_def nested_stat del: scanDirectory.simps)
  have "scanPaths (Suc (Suc depth)) example_process nested_fs nested_options
          [''/srv'', ''/nonexistent/file''] [] [] [] =
        Some ([nested_record ''/srv/.vimrc'' Vim ''set number'',
               nested_record ''/srv/conf/.gitconfig'' Git ''[user]'',
               nested_record ''/srv/conf/.bashrc'' Bash ''alias ll=ls''],
              [\<lparr>err_path = ''/nonexistent/file'',
                err_message = e_message (ENOENT ''stat'' ''/nonexistent/file''),
                err_type = Not_found,
                err_name = ''Error''\<rparr>],
              [Stat ''/srv'', Readdir ''/srv'', Stat ''/srv/.vimrc'', ReadFile ''/srv/.vimrc'',
               Readdir ''/srv/conf'', Stat ''/srv/conf/.gitconfig'', ReadFile ''/srv/conf/.gitconfig'',
               Stat ''/srv/conf/.bashrc'', ReadFile ''/srv/conf/.bashrc'', Stat ''/nonexistent/file''])"
    by (simp only: scanPaths.simps Let_def resolve_srv resolve_nonexistent a b scanDirectory_srv
        categorizeError_ENOENT e_name_ENOENT option.case prod.case sum.case append_Nil) simp
  then show ?thesis
    by (simp add: scan_def nested_option_fields del: scanPaths.simps)
qed

lemma nested_within_model: "within_model (Suc (Suc 0)) example_process nested_fs nested_options"
  by (simp add: within_model_def nested_option_fields resolve_srv resolve_nonexistent nested_stat
      nested_readdir join_srv patterns_modelled_def pattern_modelled_def replace_stars_def
      RegExp_def isSyntaxCharacter_def)

lemma nested_not_within: "\<not> within_model (Suc 0) example_process nested_fs nested_options"
  by (simp add: within_model_def nested_option_fields resolve_srv resolve_nonexistent nested_stat
      nested_readdir join_srv patterns_modelled_def pattern_modelled_def replace_stars_def
      RegExp_def isSyntaxCharacter_def)

text \<open>
  Claim C3. A scan within the model (each requested directory nests less deep than the
  depth, and is walked with modelled patterns) returns a result, whose \<^verbatim>\<open>totalFiles\<close> is
  the number of requested paths and whose \<^verbatim>\<open>validConfigs\<close> is the number of records.
  Every result that the model gives has these counts, and is the result at every greater
  depth. For the paths \<^verbatim>\<open>["/nonexistent/file"]\<close>, when \<^verbatim>\<open>stat\<close> of that path fails with
  Node's \<^verbatim>\<open>ENOENT\<close> error, \<^verbatim>\<open>scan\<close> returns, at every depth, no record, one error of the
  category \<open>Not_found\<close>, and \<^verbatim>\<open>totalFiles\<close> 1.
\<close>

theorem scan_metadata_counts:
  "(within_model depth pr fs options \<longrightarrow>
      (\<exists>result tr. scan depth pr fs clock0 clock1 options = Some (result, tr) \<and>
         totalFiles (res_metadata result) =
           length (case paths options of Some ps \<Rightarrow> ps | None \<Rightarrow> DEFAULT_SCAN_PATHS) \<and>
         validConfigs (res_metadata result) = length (res_configs result))) \<and>
   (scan depth pr fs clock0 clock1 options = Some (result, tr) \<longrightarrow>
      totalFiles (res_metadata result) =
        length (case paths options of Some ps \<Rightarrow> ps | None \<Rightarrow> DEFAULT_SCAN_PATHS) \<and>
      validConfigs (res_metadata result) = length (res_configs result) \<and>
      scan (depth + extra) pr fs clock0 clock1 options = Some (result, tr)) \<and>
   (stat fs ''/nonexistent/file'' = Inl (ENOENT ''stat'' ''/nonexistent/file'') \<and>
    paths options = Some [''/nonexistent/file''] \<longrightarrow>
      scan depth pr fs clock0 clock1 options =
        Some (\<lparr>res_configs = [],
               res_metadata = \<lparr>totalFiles = 1, validConfigs = 0, duration = clock1 - clock0,
                               startTime = clock0, endTime = clock1\<rparr>,
               res_errors = [\<lparr>err_path = ''/nonexistent/file'',
                              err_message = e_message (ENOENT ''stat'' ''/nonexistent/file''),
                              err_type = Not_found,
                              err_name = ''Error''\<rparr>]\<rparr>,
              [Stat ''/nonexistent/file'']))"
proof -
  have produced: "\<exists>result tr. scan depth pr fs clock0 clock1 options = Some (result, tr) \<and>
         totalFiles (res_metadata result) =
           length (case paths options of Some ps \<Rightarrow> ps | None \<Rightarrow> DEFAULT_SCAN_PATHS) \<and>
         validConfigs (res_metadata result) = length (res_configs result)"
    if "within_model depth pr fs options"
  proof -
    from that have "scan depth pr fs clock0 clock1 options \<noteq> None"
      by (rule scan_returns)
    then obtain result tr where s: "scan depth pr fs clock0 clock1 options = Some (result, tr)"
      by (cases "scan depth pr fs clock0 clock1 options") auto
    with scan_counts[OF s] show ?thesis by blast
  qed
  have general: "totalFiles (res_metadata result) =
        length (case paths options of Some ps \<Rightarrow> ps | None \<Rightarrow> DEFAULT_SCAN_PATHS) \<and>
      validConfigs (res_metadata result) = length (res_configs result) \<and>
      scan (depth + extra) pr fs clock0 clock1 options = Some (result, tr)"
    if "scan depth pr fs clock0 clock1 options = Some (result, tr)"
    using scan_counts[OF that] scan_deeper[OF that] by simp
  have specific: "scan depth pr fs clock0 clock1 options =
        Some (\<lparr>res_configs = [],
               res_metadata = \<lparr>totalFiles = 1, validConfigs = 0, duration = clock1 - clock0,
                               startTime = clock0, endTime = clock1\<rparr>,
               res_errors = [\<lparr>err_path = ''/nonexistent/file'',
                              err_message = e_message (ENOENT ''stat'' ''/nonexistent/file''),
                              err_type = Not_found,
                              err_name = ''Error''\<rparr>]\<rparr>,
              [Stat ''/nonexistent/file''])"
    if s: "stat fs ''/nonexistent/file'' = Inl (ENOENT ''stat'' ''/nonexistent/file'')"
      and p: "paths options = Some [''/nonexistent/file'']"
  proof -
    have sp: "scanPath depth fs options ''/nonexistent/file'' [] =
               Some (Inl (ENOENT ''stat'' ''/nonexistent/file''), [Stat ''/nonexistent/file''])"
      using s by (simp add: scanPath_def)
    have "scanPaths depth pr fs options [''/nonexistent/file''] [] [] [] =
            Some ([], [\<lparr>err_path = ''/nonexistent/file'',
                          err_message = e_message (ENOENT ''stat'' ''/nonexistent/file''),
                          err_type = Not_found,
                          err_name = ''Error''\<rparr>], [Stat ''/nonexistent/file''])"
      by (simp only: scanPaths.simps Let_def resolve_nonexistent sp categorizeError_ENOENT
          e_name_ENOENT option.case prod.case sum.case append_Nil) simp
    then show ?thesis using p by (simp add: scan_def)
  qed
  from produced general specific show ?thesis by blast
qed

text \<open>
  The directory \<^verbatim>\<open>/srv\<close> requested together with a path that does not exist: the walk
  finds three records, in \<^verbatim>\<open>/srv\<close> and in its subdirectory, and skips the log file; the
  result has three records and one error, \<^verbatim>\<open>validConfigs\<close> 3, and \<^verbatim>\<open>totalFiles\<close> 2, the
  two requested paths. And the path that does not exist, requested alone.
\<close>

theorem scan_metadata_counts_witness:
  "within_model (Suc (Suc 0)) example_process nested_fs nested_options \<and>
   scan (Suc (Suc 0)) example_process nested_fs 0 7 nested_options =
     Some (\<lparr>res_configs = [nested_record ''/srv/.vimrc'' Vim ''set number'',
                            nested_record ''/srv/conf/.gitconfig'' Git ''[user]'',
                            nested_record ''/srv/conf/.bashrc'' Bash ''alias ll=ls''],
            res_metadata = \<lparr>totalFiles = 2, validConfigs = 3, duration = 7, startTime = 0, endTime = 7\<rparr>,
            res_errors = [\<lparr>err_path = ''/nonexistent/file'',
                           err_message = e_message (ENOENT ''stat'' ''/nonexistent/file''),
                           err_type = Not_found,
                           err_name = ''Error''\<rparr>]\<rparr>,
           [Stat ''/srv'', Readdir ''/srv'', Stat ''/srv/.vimrc'', ReadFile ''/srv/.vimrc'',
            Readdir ''/srv/conf'', Stat ''/srv/conf/.gitconfig'', ReadFile ''/srv/conf/.gitconfig'',
            Stat ''/srv/conf/.bashrc'', ReadFile ''/srv/conf/.bashrc'', Stat ''/nonexistent/file'']) \<and>
   scan (Suc (Suc 0) + 3) example_process nested_fs 0 7 nested_options =
     scan (Suc (Suc 0)) example_process nested_fs 0 7 nested_options \<and>
   (\<exists>result tr. scan (Suc (Suc 0)) example_process nested_fs 0 7 nested_options = Some (result, tr) \<and>
      totalFiles (res_metadata result) = 2 \<and> validConfigs (res_metadata result) = 3 \<and>
      length (res_configs result) = 3) \<and>
   stat example_fs ''/nonexistent/file'' = Inl (ENOENT ''stat'' ''/nonexistent/file'') \<and>
   paths (no_options\<lparr>paths := Some [''/nonexistent/file'']\<rparr>) = Some [''/nonexistent/file''] \<and>
   scan 0 example_process example_fs 0 5 (no_options\<lparr>paths := Some [''/nonexistent/file'']\<rparr>) =
     Some (\<lparr>res_configs = [],
            res_metadata = \<lparr>totalFiles = 1, validConfigs = 0, duration = 5, startTime = 0, endTime = 5\<rparr>,
            res_errors = [\<lparr>err_path = ''/nonexistent/file'',
                           err_message = e_message (ENOENT ''stat'' ''/nonexistent/file''),
                           err_type = Not_found,
                           err_name = ''Error''\<rparr>]\<rparr>,
           [Stat ''/nonexistent/file'']) \<and>
   totalFiles (res_metadata (fst (the (scan 0 example_process example_fs 0 5
     (no_options\<lparr>paths := Some [''/nonexistent/file'']\<rparr>))))) = 1"
proof -
  let ?options = "no_options\<lparr>paths := Some [''/nonexistent/file'']\<rparr>"
  let ?result = "\<lparr>res_configs = [nested_record ''/srv/.vimrc'' Vim ''set number'',
                            nested_record ''/srv/conf/.gitconfig'' Git ''[user]'',
                            nested_record ''/srv/conf/.bashrc'' Bash ''alias ll=ls''],
            res_metadata = \<lparr>totalFiles = 2, validConfigs = 3, duration = 7, startTime = 0, endTime = 7\<rparr>,
            res_errors = [\<lparr>err_path = ''/nonexistent/file'',
                           err_message = e_message (ENOENT ''stat'' ''/nonexistent/file''),
                           err_type = Not_found,
                           err_name = ''Error''\<rparr>]\<rparr>"
  let ?tr = "[Stat ''/srv'', Readdir ''/srv'', Stat ''/srv/.vimrc'', ReadFile ''/srv/.vimrc'',
            Readdir ''/srv/conf'', Stat ''/srv/conf/.gitconfig'', ReadFile ''/srv/conf/.gitconfig'',
            Stat ''/srv/conf/.bashrc'', ReadFile ''/srv/conf/.bashrc'', Stat ''/nonexistent/file'']"
  have w: "within_model (Suc (Suc 0)) example_process nested_fs nested_options"
    by (rule nested_within_model)
  have n: "scan (Suc (Suc 0)) example_process nested_fs 0 7 nested_options = Some (?result, ?tr)"
    using scan_nested[of 0 0 7] by simp
  note u = scan_metadata_counts[where fs = nested_fs and options = nested_options
      and depth = "Suc (Suc 0)" and pr = example_process and ?clock0.0 = 0 and ?clock1.0 = 7
      and result = ?result and tr = ?tr and extra = 3]
  from u w have e: "\<exists>result tr.
      scan (Suc (Suc 0)) example_process nested_fs 0 7 nested_options = Some (result, tr) \<and>
      totalFiles (res_metadata result) = 2 \<and> validConfigs (res_metadata result) = 3 \<and>
      length (res_configs result) = 3"
    using n by (simp add: nested_option_fields)
  from u n have d: "scan (Suc (Suc 0) + 3) example_process nested_fs 0 7 nested_options =
     scan (Suc (Suc 0)) example_process nested_fs 0 7 nested_options"
    by simp
  have s: "stat example_fs ''/nonexistent/file'' = Inl (ENOENT ''stat'' ''/nonexistent/file'')"
    by (simp add: example_fs_def)
  have p: "paths ?options = Some [''/nonexistent/file'']" by simp
  note t = scan_metadata_counts[where fs = example_fs and options = ?options and depth = 0
      and pr = example_process and ?clock0.0 = 0 and ?clock1.0 = 5]
  from t s p have r: "scan 0 example_process example_fs 0 5 ?options =
     Some (\<lparr>res_configs = [],
            res_metadata = \<lparr>totalFiles = 1, validConfigs = 0, duration = 5, startTime = 0, endTime = 5\<rparr>,
            res_errors = [\<lparr>err_path = ''/nonexistent/file'',
                           err_message = e_message (ENOENT ''stat'' ''/nonexistent/file''),
                           err_type = Not_found,
                           err_name = ''Error''\<rparr>]\<rparr>,
           [Stat ''/nonexistent/file''])"
    by simp
  from w n d e s p r show ?thesis by simp
qed

subsection \<open>Hidden entries, exclusion and the zero size\<close>

lemma exclude_bashrc:
  "shouldExclude ''/home/u/.bashrc'' (Some [''*bashrc'']) = Returns True"
  by (simp add: shouldExclude_def replace_stars_def RegExp_def isSyntaxCharacter_def test_def
      isLineTerminator_def)

text \<open>
  Claim C9. For a requested path that is a file, \<^verbatim>\<open>scanPath\<close> is \<^verbatim>\<open>scanFile\<close> after one
  \<^verbatim>\<open>stat\<close>, whatever \<^verbatim>\<open>includeHidden\<close> and \<^verbatim>\<open>excludePatterns\<close> are: neither is read. In the
  walk of a directory, an entry whose name starts with \<^verbatim>\<open>.\<close> while \<^verbatim>\<open>includeHidden\<close> is not
  true, and an entry that \<^verbatim>\<open>shouldExclude\<close> matches, are skipped.
\<close>

theorem top_level_file_not_filtered:
  "(stat fs path = Inr stats \<and> st_kind stats = IsFile \<longrightarrow>
      scanPath depth fs (options\<lparr>includeHidden := hidden, excludePatterns := patterns\<rparr>) path tr =
        Some (scanFile fs options path (tr @ [Stat path]))) \<and>
   ((includeHidden options \<noteq> Some True \<and> startsWith (d_name entry) ''.'') \<or>
    ((includeHidden options = Some True \<or> \<not> startsWith (d_name entry) ''.'') \<and>
     shouldExclude (join dirPath (d_name entry)) (excludePatterns options) = Returns True) \<longrightarrow>
      scanEntries recurse fs options dirPath (entry # entries) cs tr =
        scanEntries recurse fs options dirPath entries cs tr)"
proof -
  have m: "maxFileSize_or_default (options\<lparr>includeHidden := hidden, excludePatterns := patterns\<rparr>) =
             maxFileSize_or_default options"
    by (simp add: maxFileSize_or_default_def)
  have f: "scanFile fs (options\<lparr>includeHidden := hidden, excludePatterns := patterns\<rparr>) path t =
             scanFile fs options path t" for t
    unfolding scanFile_def m by (rule refl)
  have a: "stat fs path = Inr stats \<and> st_kind stats = IsFile \<longrightarrow>
      scanPath depth fs (options\<lparr>includeHidden := hidden, excludePatterns := patterns\<rparr>) path tr =
        Some (scanFile fs options path (tr @ [Stat path]))"
    by (simp add: scanPath_def f)
  have b: "(includeHidden options \<noteq> Some True \<and> startsWith (d_name entry) ''.'') \<or>
    ((includeHidden options = Some True \<or> \<not> startsWith (d_name entry) ''.'') \<and>
     shouldExclude (join dirPath (d_name entry)) (excludePatterns options) = Returns True) \<longrightarrow>
      scanEntries recurse fs options dirPath (entry # entries) cs tr =
        scanEntries recurse fs options dirPath entries cs tr"
    by (auto simp: Let_def)
  from a b show ?thesis by blast
qed

text \<open>
  \<^verbatim>\<open>/home/u/.bashrc\<close>, hidden and matched by the pattern \<^verbatim>\<open>*bashrc\<close>: a record as a
  requested path, skipped as an entry of \<^verbatim>\<open>/home/u\<close>.
\<close>

theorem top_level_file_not_filtered_witness:
  "stat example_fs ''/home/u/.bashrc'' =
     Inr \<lparr>st_kind = IsFile, st_size = 32, st_mtime = 1700000000000\<rparr> \<and>
   startsWith ''.bashrc'' ''.'' \<and>
   shouldExclude (join ''/home/u'' ''.bashrc'') (Some [''*bashrc'']) = Returns True \<and>
   scanPath 0 example_fs
     (no_options\<lparr>includeHidden := Some False, excludePatterns := Some [''*bashrc'']\<rparr>)
     ''/home/u/.bashrc'' [] =
     Some (Inr [bashrc_record],
           [Stat ''/home/u/.bashrc'', Stat ''/home/u/.bashrc'', ReadFile ''/home/u/.bashrc'']) \<and>
   scanEntries (scanDirectory 0 example_fs (no_options\<lparr>includeHidden := Some False\<rparr>)) example_fs
     (no_options\<lparr>includeHidden := Some False\<rparr>) ''/home/u''
     [\<lparr>d_name = ''.bashrc'', d_kind = IsFile\<rparr>] [] [] = Some (Inr [], []) \<and>
   scanEntries
     (scanDirectory 0 example_fs
        (no_options\<lparr>includeHidden := Some True, excludePatterns := Some [''*bashrc'']\<rparr>))
     example_fs (no_options\<lparr>includeHidden := Some True, excludePatterns := Some [''*bashrc'']\<rparr>)
     ''/home/u'' [\<lparr>d_name = ''.bashrc'', d_kind = IsFile\<rparr>] [] [] = Some (Inr [], [])"
proof -
  let ?stats = "\<lparr>st_kind = IsFile, st_size = 32, st_mtime = 1700000000000\<rparr>"
  let ?entry = "\<lparr>d_name = ''.bashrc'', d_kind = IsFile\<rparr>"
  let ?o1 = "no_options\<lparr>includeHidden := Some False\<rparr>"
  let ?o2 = "no_options\<lparr>includeHidden := Some True, excludePatterns := Some [''*bashrc'']\<rparr>"
  have s: "stat example_fs ''/home/u/.bashrc'' = Inr ?stats"
    by (simp add: example_fs_def)
  have k: "st_kind ?stats = IsFile" by simp
  have h: "startsWith ''.bashrc'' ''.''" by simp
  have x: "shouldExclude (join ''/home/u'' ''.bashrc'') (Some [''*bashrc'']) = Returns True"
    by (simp only: join_bashrc exclude_bashrc)
  have f: "scanFile example_fs no_options ''/home/u/.bashrc'' [Stat ''/home/u/.bashrc''] =
             (Inr [bashrc_record],
              [Stat ''/home/u/.bashrc'', Stat ''/home/u/.bashrc'', ReadFile ''/home/u/.bashrc''])"
    using scanFile_bashrc[of no_options "[Stat ''/home/u/.bashrc'']"] by (simp add: no_options_def)
  have a: "scanPath 0 example_fs
     (no_options\<lparr>includeHidden := Some False, excludePatterns := Some [''*bashrc'']\<rparr>)
     ''/home/u/.bashrc'' [] =
     Some (Inr [bashrc_record],
           [Stat ''/home/u/.bashrc'', Stat ''/home/u/.bashrc'', ReadFile ''/home/u/.bashrc''])"
    using top_level_file_not_filtered[where fs = example_fs and path = "''/home/u/.bashrc''"
        and stats = ?stats and options = no_options and hidden = "Some False"
        and patterns = "Some [''*bashrc'']" and depth = 0 and tr = "[]"] s k f
    by simp
  have b: "scanEntries (scanDirectory 0 example_fs ?o1) example_fs ?o1 ''/home/u'' [?entry] [] [] =
             Some (Inr [], [])"
    using top_level_file_not_filtered[where options = ?o1 and entry = ?entry
        and recurse = "scanDirectory 0 example_fs ?o1" and fs = example_fs
        and dirPath = "''/home/u''" and entries = "[]" and cs = "[]" and tr = "[]"] h
    by simp
  have c: "scanEntries (scanDirectory 0 example_fs ?o2) example_fs ?o2 ''/home/u'' [?entry] [] [] =
             Some (Inr [], [])"
    using top_level_file_not_filtered[where options = ?o2 and entry = ?entry
        and recurse = "scanDirectory 0 example_fs ?o2" and fs = example_fs
        and dirPath = "''/home/u''" and entries = "[]" and cs = "[]" and tr = "[]"] x
    by simp
  from s h x a b c show ?thesis by blast
qed

text \<open>
  Claim C10. With \<^verbatim>\<open>maxFileSize: 0\<close> the maximum in force is \<^verbatim>\<open>MAX_FILE_SIZE\<close>, and
  \<^verbatim>\<open>scanFile\<close> does what it does with no \<^verbatim>\<open>maxFileSize\<close> at all: a file of at most
  \<^verbatim>\<open>MAX_FILE_SIZE\<close> bytes that can be read and has a type yields its record, not a
  size-limit error.
\<close>

theorem zero_maxFileSize_is_default:
  "maxFileSize_or_default (options\<lparr>maxFileSize := Some 0\<rparr>) = MAX_FILE_SIZE \<and>
   scanFile fs (options\<lparr>maxFileSize := Some 0\<rparr>) filePath tr =
     scanFile fs (options\<lparr>maxFileSize := None\<rparr>) filePath tr \<and>
   (stat fs filePath = Inr stats \<and> int (st_size stats) \<le> MAX_FILE_SIZE \<and>
    readFile fs filePath = Inr content \<and> determineConfigType filePath = Some configType \<longrightarrow>
      scanFile fs (options\<lparr>maxFileSize := Some 0\<rparr>) filePath tr =
        (Inr [\<lparr>cfg_path = filePath, cfg_type = configType, cfg_content = content,
                cfg_lastModified = st_mtime stats, cfg_size = st_size stats,
                cfg_dependencies = [], cfg_isActive = True, cfg_backupStatus = Not_backed_up\<rparr>],
         tr @ [Stat filePath, ReadFile filePath]))"
proof -
  have z: "maxFileSize_or_default (options\<lparr>maxFileSize := Some 0\<rparr>) = MAX_FILE_SIZE"
    by (simp add: maxFileSize_or_default_def)
  have n: "maxFileSize_or_default (options\<lparr>maxFileSize := None\<rparr>) = MAX_FILE_SIZE"
    by (simp add: maxFileSize_or_default_def)
  have e: "scanFile fs (options\<lparr>maxFileSize := Some 0\<rparr>) filePath tr =
     scanFile fs (options\<lparr>maxFileSize := None\<rparr>) filePath tr"
    unfolding scanFile_def z n by (rule refl)
  have r: "stat fs filePath = Inr stats \<and> int (st_size stats) \<le> MAX_FILE_SIZE \<and>
    readFile fs filePath = Inr content \<and> determineConfigType filePath = Some configType \<longrightarrow>
      scanFile fs (options\<lparr>maxFileSize := Some 0\<rparr>) filePath tr =
        (Inr [\<lparr>cfg_path = filePath, cfg_type = configType, cfg_content = content,
                cfg_lastModified = st_mtime stats, cfg_size = st_size stats,
                cfg_dependencies = [], cfg_isActive = True, cfg_backupStatus = Not_backed_up\<rparr>],
         tr @ [Stat filePath, ReadFile filePath])"
    unfolding scanFile_def z by simp
  from z e r show ?thesis by blast
qed

theorem zero_maxFileSize_is_default_witness:
  "stat example_fs ''/home/u/.bashrc'' =
     Inr \<lparr>st_kind = IsFile, st_size = 32, st_mtime = 1700000000000\<rparr> \<and>
   (0::int) < 32 \<and> (32::int) \<le> MAX_FILE_SIZE \<and>
   readFile example_fs ''/home/u/.bashrc'' = Inr ''export PATH=$PATH:/usr/local/bin'' \<and>
   determineConfigType ''/home/u/.bashrc'' = Some (Kind Bash) \<and>
   scanFile example_fs (no_options\<lparr>maxFileSize := Some 0\<rparr>) ''/home/u/.bashrc'' [] =
     (Inr [bashrc_record], [Stat ''/home/u/.bashrc'', ReadFile ''/home/u/.bashrc''])"
proof -
  let ?stats = "\<lparr>st_kind = IsFile, st_size = 32, st_mtime = 1700000000000\<rparr>"
  have s: "stat example_fs ''/home/u/.bashrc'' = Inr ?stats"
    by (simp add: example_fs_def)
  have m: "int (st_size ?stats) \<le> MAX_FILE_SIZE" by (simp add: MAX_FILE_SIZE_def)
  have r: "readFile example_fs ''/home/u/.bashrc'' = Inr ''export PATH=$PATH:/usr/local/bin''"
    by (simp add: example_fs_def)
  have "scanFile example_fs (no_options\<lparr>maxFileSize := Some 0\<rparr>) ''/home/u/.bashrc'' [] =
     (Inr [bashrc_record], [Stat ''/home/u/.bashrc'', ReadFile ''/home/u/.bashrc''])"
    using zero_maxFileSize_is_default[where fs = example_fs and filePath = "''/home/u/.bashrc''"
        and stats = ?stats and content = "''export PATH=$PATH:/usr/local/bin''"
        and configType = "Kind Bash" and options = no_options and tr = "[]",
        THEN conjunct2, THEN conjunct2] s m r type_bashrc
    by (simp add: bashrc_record_def)
  with s m r type_bashrc show ?thesis by simp
qed

section \<open>Properties of the exclusion\<close>

lemma replace_stars_Cons:
  "replace_stars (c # p) = (if c = CHR ''*'' then ''.*'' else [c]) @ replace_stars p"
  by (simp add: replace_stars_def)

lemma replace_stars_Nil: "replace_stars [] = []"
  by (simp add: replace_stars_def)

lemma replace_stars_no_leading_star:
  "replace_stars p = d # ds \<Longrightarrow> glob_pattern p \<Longrightarrow> d = CHR ''*'' \<Longrightarrow> False"
  by (cases p) (auto simp: replace_stars_Cons replace_stars_Nil split: if_splits)

lemma dot_is_syntax: "isSyntaxCharacter CHR ''.''"
  by (simp add: isSyntaxCharacter_def)

lemma parse_terms_glob:
  "glob_pattern p \<Longrightarrow> parse_terms src (replace_stars p) = Returns (glob_regex p)"
proof (induction p)
  case Nil
  then show ?case by (simp add: replace_stars_Nil glob_regex_def)
next
  case (Cons c p)
  from Cons.prems have gp: "glob_pattern p" and c: "c = CHR ''*'' \<or> \<not> isSyntaxCharacter c"
    by (simp_all add: glob_pattern_def)
  have ih: "parse_terms src (replace_stars p) = Returns (glob_regex p)"
    using Cons.IH gp by simp
  show ?case
  proof (cases "c = CHR ''*''")
    case True
    then show ?thesis
      using ih by (simp add: replace_stars_Cons glob_regex_def dot_is_syntax)
  next
    case False
    with c have ns: "\<not> isSyntaxCharacter c" by simp
    then have nd: "c \<noteq> CHR ''.''" using dot_is_syntax by auto
    show ?thesis
    proof (cases "replace_stars p")
      case Nil
      then have "p = []" by (cases p) (auto simp: replace_stars_Cons split: if_splits)
      then show ?thesis
        using False ns nd by (simp add: replace_stars_Cons replace_stars_Nil glob_regex_def)
    next
      case (Cons d ds)
      then have "d \<noteq> CHR ''*''" using replace_stars_no_leading_star gp by blast
      then show ?thesis
        using False ns nd ih Cons by (simp add: replace_stars_Cons glob_regex_def)
    qed
  qed
qed

lemma backtrack_star_dot:
  assumes k: "\<And>s b caps. (backtrack k s b caps \<noteq> None) = P s"
  shows "(backtrack (Star Dot # k) s b caps \<noteq> None) =
           (\<exists>u w. s = u @ w \<and> (\<forall>x \<in> set u. \<not> isLineTerminator x) \<and> P w)"
proof (induction s arbitrary: b)
  case Nil
  then show ?case using k by simp
next
  case (Cons x xs)
  show ?case
  proof (cases "isLineTerminator x")
    case True
    have "(\<exists>u w. x # xs = u @ w \<and> (\<forall>x \<in> set u. \<not> isLineTerminator x) \<and> P w) = P (x # xs)"
    proof
      assume "\<exists>u w. x # xs = u @ w \<and> (\<forall>x \<in> set u. \<not> isLineTerminator x) \<and> P w"
      then obtain u w where uw: "x # xs = u @ w" "\<forall>x \<in> set u. \<not> isLineTerminator x" "P w"
        by blast
      then have "u = []" using True by (cases u) auto
      then show "P (x # xs)" using uw by simp
    next
      assume "P (x # xs)"
      then have "x # xs = [] @ (x # xs) \<and> (\<forall>x \<in> set []. \<not> isLineTerminator x) \<and> P (x # xs)"
        by simp
      then show "\<exists>u w. x # xs = u @ w \<and> (\<forall>x \<in> set u. \<not> isLineTerminator x) \<and> P w"
        by blast
    qed
    then show ?thesis using True k by simp
  next
    case False
    have l: "(backtrack (Star Dot # k) (x # xs) b caps \<noteq> None) =
               (backtrack (Star Dot # k) xs False caps \<noteq> None \<or> P (x # xs))"
      using False k[of "x # xs" b caps] by (auto split: option.splits)
    have r: "(\<exists>u w. x # xs = u @ w \<and> (\<forall>x \<in> set u. \<not> isLineTerminator x) \<and> P w) =
               ((\<exists>u w. xs = u @ w \<and> (\<forall>x \<in> set u. \<not> isLineTerminator x) \<and> P w) \<or> P (x # xs))"
    proof
      assume "\<exists>u w. x # xs = u @ w \<and> (\<forall>x \<in> set u. \<not> isLineTerminator x) \<and> P w"
      then obtain u w where uw: "x # xs = u @ w" "\<forall>x \<in> set u. \<not> isLineTerminator x" "P w"
        by blast
      show "(\<exists>u w. xs = u @ w \<and> (\<forall>x \<in> set u. \<not> isLineTerminator x) \<and> P w) \<or> P (x # xs)"
      proof (cases u)
        case Nil
        then show ?thesis using uw by simp
      next
        case (Cons a u')
        then have "xs = u' @ w \<and> (\<forall>x \<in> set u'. \<not> isLineTerminator x) \<and> P w" using uw by simp
        then show ?thesis by blast
      qed
    next
      assume "(\<exists>u w. xs = u @ w \<and> (\<forall>x \<in> set u. \<not> isLineTerminator x) \<and> P w) \<or> P (x # xs)"
      then show "\<exists>u w. x # xs = u @ w \<and> (\<forall>x \<in> set u. \<not> isLineTerminator x) \<and> P w"
      proof
        assume "\<exists>u w. xs = u @ w \<and> (\<forall>x \<in> set u. \<not> isLineTerminator x) \<and> P w"
        then obtain u w where "xs = u @ w" "\<forall>x \<in> set u. \<not> isLineTerminator x" "P w" by blast
        then have "x # xs = (x # u) @ w \<and> (\<forall>y \<in> set (x # u). \<not> isLineTerminator y) \<and> P w"
          using False by simp
        then show ?thesis by blast
      next
        assume "P (x # xs)"
        then have "x # xs = [] @ (x # xs) \<and> (\<forall>x \<in> set []. \<not> isLineTerminator x) \<and> P (x # xs)"
          by simp
        then show ?thesis by blast
      qed
    qed
    show ?thesis using l r Cons.IH[of False] by simp
  qed
qed

lemma backtrack_glob:
  "(backtrack (glob_regex p) s b caps \<noteq> None) = (\<exists>u v. s = u @ v \<and> glob_accepts p u)"
proof (induction p arbitrary: s b caps)
  case Nil
  then show ?case by (simp add: glob_regex_def)
next
  case (Cons c p)
  show ?case
  proof (cases "c = CHR ''*''")
    case True
    have g: "glob_regex (c # p) = Star Dot # glob_regex p" using True by (simp add: glob_regex_def)
    have "(backtrack (Star Dot # glob_regex p) s b caps \<noteq> None) =
            (\<exists>u w. s = u @ w \<and> (\<forall>x \<in> set u. \<not> isLineTerminator x) \<and>
               (\<exists>u' v. w = u' @ v \<and> glob_accepts p u'))"
      by (rule backtrack_star_dot) (rule Cons.IH)
    also have "\<dots> = (\<exists>u v. s = u @ v \<and> glob_accepts (c # p) u)"
    proof
      assume "\<exists>u w. s = u @ w \<and> (\<forall>x \<in> set u. \<not> isLineTerminator x) \<and>
               (\<exists>u' v. w = u' @ v \<and> glob_accepts p u')"
      then obtain u u' v where "s = u @ u' @ v" "\<forall>x \<in> set u. \<not> isLineTerminator x" "glob_accepts p u'"
        by blast
      then have "s = (u @ u') @ v \<and> glob_accepts (c # p) (u @ u')" using True by auto
      then show "\<exists>u v. s = u @ v \<and> glob_accepts (c # p) u" by blast
    next
      assume "\<exists>u v. s = u @ v \<and> glob_accepts (c # p) u"
      then obtain u v u1 u2 where "s = u @ v" "u = u1 @ u2" "\<forall>x \<in> set u1. \<not> isLineTerminator x"
        "glob_accepts p u2" using True by auto
      then have "s = u1 @ (u2 @ v) \<and> (\<forall>x \<in> set u1. \<not> isLineTerminator x) \<and>
                   (u2 @ v = u2 @ v \<and> glob_accepts p u2)" by simp
      then show "\<exists>u w. s = u @ w \<and> (\<forall>x \<in> set u. \<not> isLineTerminator x) \<and>
               (\<exists>u' v. w = u' @ v \<and> glob_accepts p u')" by blast
    qed
    finally show ?thesis using g by simp
  next
    case False
    have g: "glob_regex (c # p) = Atom (Is (Ch c)) # glob_regex p"
      using False by (simp add: glob_regex_def)
    show ?thesis
    proof (cases s)
      case Nil
      then show ?thesis using g False by simp
    next
      case (Cons x xs)
      show ?thesis
      proof (cases "x = c")
        case True
        have "(backtrack (glob_regex (c # p)) s b caps \<noteq> None) =
                (\<exists>u v. xs = u @ v \<and> glob_accepts p u)"
          using g Cons True Cons.IH[of xs False caps] by simp
        also have "\<dots> = (\<exists>u v. s = u @ v \<and> glob_accepts (c # p) u)"
        proof
          assume "\<exists>u v. xs = u @ v \<and> glob_accepts p u"
          then obtain u v where "xs = u @ v" "glob_accepts p u" by blast
          then have "s = (c # u) @ v \<and> glob_accepts (c # p) (c # u)"
            using Cons True False by simp
          then show "\<exists>u v. s = u @ v \<and> glob_accepts (c # p) u" by blast
        next
          assume "\<exists>u v. s = u @ v \<and> glob_accepts (c # p) u"
          then obtain u v u' where "s = u @ v" "u = c # u'" "glob_accepts p u'"
            using False by auto
          then have "xs = u' @ v \<and> glob_accepts p u'" using Cons by simp
          then show "\<exists>u v. xs = u @ v \<and> glob_accepts p u" by blast
        qed
        finally show ?thesis .
      next
        case ne: False
        have "\<not> (\<exists>u v. s = u @ v \<and> glob_accepts (c # p) u)"
          using Cons ne False by auto
        then show ?thesis using g Cons ne by simp
      qed
    qed
  qed
qed

lemma exec_from_glob:
  "(exec_from (glob_regex p) s b \<noteq> None) = matches_somewhere p s"
proof (induction s arbitrary: b)
  case Nil
  show ?case using backtrack_glob[of p "[]" b Map.empty] by (simp add: matches_somewhere_def)
next
  case (Cons x xs)
  have "(exec_from (glob_regex p) (x # xs) b \<noteq> None) =
          ((\<exists>u v. x # xs = u @ v \<and> glob_accepts p u) \<or> matches_somewhere p xs)"
    using backtrack_glob[of p "x # xs" b Map.empty] Cons.IH[of False]
    by (auto split: option.splits)
  also have "\<dots> = matches_somewhere p (x # xs)"
  proof
    assume "(\<exists>u v. x # xs = u @ v \<and> glob_accepts p u) \<or> matches_somewhere p xs"
    then show "matches_somewhere p (x # xs)"
    proof
      assume "\<exists>u v. x # xs = u @ v \<and> glob_accepts p u"
      then obtain u v where "x # xs = [] @ u @ v \<and> glob_accepts p u" by auto
      then show ?thesis unfolding matches_somewhere_def by blast
    next
      assume "matches_somewhere p xs"
      then obtain pre mid post where "xs = pre @ mid @ post" "glob_accepts p mid"
        unfolding matches_somewhere_def by blast
      then have "x # xs = (x # pre) @ mid @ post \<and> glob_accepts p mid" by simp
      then show ?thesis unfolding matches_somewhere_def by blast
    qed
  next
    assume "matches_somewhere p (x # xs)"
    then obtain pre mid post where m: "x # xs = pre @ mid @ post" "glob_accepts p mid"
      unfolding matches_somewhere_def by blast
    show "(\<exists>u v. x # xs = u @ v \<and> glob_accepts p u) \<or> matches_somewhere p xs"
    proof (cases pre)
      case Nil
      then show ?thesis using m by auto
    next
      case (Cons a pre')
      then have "xs = pre' @ mid @ post" using m by simp
      then show ?thesis using m unfolding matches_somewhere_def by blast
    qed
  qed
  finally show ?case .
qed

lemma some_pattern_glob:
  "list_all glob_pattern patterns \<Longrightarrow>
   some_pattern path patterns = Returns (\<exists>pattern \<in> set patterns. matches_somewhere pattern path)"
proof (induction patterns)
  case Nil
  then show ?case by simp
next
  case (Cons p ps)
  then have r: "RegExp (replace_stars p) = Returns (glob_regex p)"
    by (simp add: RegExp_def parse_terms_glob)
  have t: "test (glob_regex p) path = matches_somewhere p path"
    unfolding test_def by (rule exec_from_glob)
  show ?case using Cons r t by simp
qed

text \<open>
  Claim C5. With no pattern list, \<^verbatim>\<open>shouldExclude\<close> excludes no path. With a list of
  patterns that have only literal characters (no syntax character of regular
  expressions) and \<^verbatim>\<open>*\<close>, it returns, and it excludes the path exactly when some pattern,
  each \<^verbatim>\<open>*\<close> read as \<^verbatim>\<open>.*\<close>, matches a part of the path: the backtracking search of
  \<^verbatim>\<open>regex.test\<close> on the expression built from the pattern agrees with the statement of
  the specification.
\<close>

theorem shouldExclude_is_glob_match:
  "shouldExclude path None = Returns False \<and>
   (list_all glob_pattern patterns \<longrightarrow>
      shouldExclude path (Some patterns) = Returns (spec_shouldExclude path (Some patterns)))"
  by (simp add: shouldExclude_def spec_shouldExclude_def some_pattern_glob)

lemma exclude_middle:
  "shouldExclude ''/home/u/.bashrc.bak'' (Some [''*log'', ''u/*rc'']) = Returns True"
  by (simp add: shouldExclude_def replace_stars_def RegExp_def isSyntaxCharacter_def test_def
      isLineTerminator_def)

lemma exclude_none:
  "shouldExclude ''/home/u/.vimrc'' (Some [''*log'', ''tmp*'']) = Returns False"
  by (simp add: shouldExclude_def replace_stars_def RegExp_def isSyntaxCharacter_def test_def
      isLineTerminator_def)

text \<open>
  The pattern \<^verbatim>\<open>u/*rc\<close> matches inside \<^verbatim>\<open>/home/u/.bashrc.bak\<close>, at neither end of it; no
  pattern of the second list matches \<^verbatim>\<open>/home/u/.vimrc\<close>.
\<close>

theorem shouldExclude_is_glob_match_witness:
  "list_all glob_pattern [''*log'', ''u/*rc''] \<and>
   shouldExclude ''/home/u/.bashrc.bak'' (Some [''*log'', ''u/*rc'']) = Returns True \<and>
   spec_shouldExclude ''/home/u/.bashrc.bak'' (Some [''*log'', ''u/*rc'']) \<and>
   list_all glob_pattern [''*log'', ''tmp*''] \<and>
   shouldExclude ''/home/u/.vimrc'' (Some [''*log'', ''tmp*'']) = Returns False \<and>
   \<not> spec_shouldExclude ''/home/u/.vimrc'' (Some [''*log'', ''tmp*''])"
proof -
  have g1: "list_all glob_pattern [''*log'', ''u/*rc'']"
    by (simp add: glob_pattern_def isSyntaxCharacter_def)
  have g2: "list_all glob_pattern [''*log'', ''tmp*'']"
    by (simp add: glob_pattern_def isSyntaxCharacter_def)
  have s1: "spec_shouldExclude ''/home/u/.bashrc.bak'' (Some [''*log'', ''u/*rc''])"
    using shouldExclude_is_glob_match[of "''/home/u/.bashrc.bak''" "[''*log'', ''u/*rc'']"] g1
      exclude_middle
    by simp
  have s2: "\<not> spec_shouldExclude ''/home/u/.vimrc'' (Some [''*log'', ''tmp*''])"
    using shouldExclude_is_glob_match[of "''/home/u/.vimrc''" "[''*log'', ''tmp*'']"] g2
      exclude_none
    by simp
  from g1 exclude_middle s1 g2 exclude_none s2 show ?thesis by blast
qed

section \<open>Properties of the parsers\<close>

subsection \<open>The lines of the shell example\<close>

lemmas regex_eval = match_def test_def lit_def group_def isWhiteSpace_def isLineTerminator_def
  isWordChar_def isDigit_def

lemma trim_export: "trim export_line = export_line"
  by (simp add: trim_def export_line_def isWhiteSpace_def)

lemma export_var: "match export_line bash_varRegex = None"
  by (simp add: export_line_def bash_varRegex_def regex_eval)

lemma export_import: "match export_line bash_importRegex = None"
  by (simp add: export_line_def bash_importRegex_def regex_eval)

lemma export_func: "match export_line bash_funcRegex = None"
  by (simp add: export_line_def bash_funcRegex_def regex_eval)

lemma export_alias: "match export_line bash_aliasRegex = None"
  by (simp add: export_line_def bash_aliasRegex_def regex_eval)

lemma trim_alias: "trim alias_line = alias_line"
  by (simp add: trim_def alias_line_def isWhiteSpace_def)

lemma alias_var: "match alias_line bash_varRegex = None"
  by (simp add: alias_line_def bash_varRegex_def regex_eval)

lemma alias_import: "match alias_line bash_importRegex = None"
  by (simp add: alias_line_def bash_importRegex_def regex_eval)

lemma alias_func: "match alias_line bash_funcRegex = None"
  by (simp add: alias_line_def bash_funcRegex_def regex_eval)

lemma alias_alias:
  "match alias_line bash_aliasRegex = Some [1 \<mapsto> ''ll'', 2 \<mapsto> [dquote] @ ''ls -la'' @ [dquote]]"
  by (simp add: alias_line_def bash_aliasRegex_def regex_eval)

lemma trim_assignment: "trim assignment_line = assignment_line"
  by (simp add: trim_def assignment_line_def isWhiteSpace_def)

lemma assignment_var:
  "match assignment_line bash_varRegex = Some [1 \<mapsto> ''FOO'', 2 \<mapsto> [dquote] @ ''bar'' @ [dquote]]"
  by (simp add: assignment_line_def bash_varRegex_def regex_eval)

lemma parseValue_bar: "BashParser_parseValue ([dquote] @ ''bar'' @ [dquote]) = JString ''bar''"
  by (simp add: BashParser_parseValue_def trim_def isWhiteSpace_def endsWith_def slice_1_m1_def)

subsection \<open>\<^verbatim>\<open>BashParser.parse\<close> on assignments and aliases\<close>

lemma export_line_ignored: "bash_parse_line export_line st = st"
  by (simp add: bash_parse_line_def trim_export export_var export_import export_func export_alias)
     (simp add: export_line_def)

lemma alias_line_parsed:
  "bash_parse_line alias_line st = st\<lparr>bd_aliases := bd_aliases st @ [''ll'']\<rparr>"
  by (simp add: bash_parse_line_def trim_alias alias_var alias_import alias_func alias_alias group_def)
     (simp add: alias_line_def)

lemma assignment_line_parsed:
  "bash_parse_line assignment_line st =
     st\<lparr>bd_variables := (bd_variables st)(''FOO'' \<mapsto> JString ''bar'')\<rparr>"
  by (simp add: bash_parse_line_def trim_assignment assignment_var group_def
      parseValue_bar[simplified] js_set_def)
     (simp add: assignment_line_def)

lemma bash_parse_line_aliases:
  "set (bd_aliases st) \<subseteq> set (bd_aliases (bash_parse_line raw st))"
  by (auto simp: bash_parse_line_def Let_def split: option.splits)

lemma bash_parse_lines_aliases:
  "set (bd_aliases st) \<subseteq> set (bd_aliases (bash_parse_lines lines st))"
proof (induction lines arbitrary: st)
  case Nil
  then show ?case by simp
next
  case (Cons raw rest)
  have "set (bd_aliases st) \<subseteq> set (bd_aliases (bash_parse_line raw st))"
    by (rule bash_parse_line_aliases)
  also have "\<dots> \<subseteq> set (bd_aliases (bash_parse_lines rest (bash_parse_line raw st)))"
    by (rule Cons.IH)
  finally show ?case by simp
qed

lemma alias_line_found:
  "alias_line \<in> set lines \<Longrightarrow> ''ll'' \<in> set (bd_aliases (bash_parse_lines lines st))"
proof (induction lines arbitrary: st)
  case Nil
  then show ?case by simp
next
  case (Cons raw rest)
  show ?case
  proof (cases "raw = alias_line")
    case True
    have "''ll'' \<in> set (bd_aliases (bash_parse_line alias_line st))"
      by (simp add: alias_line_parsed)
    then show ?thesis
      using True bash_parse_lines_aliases[of "bash_parse_line alias_line st" rest] by auto
  next
    case False
    then have "alias_line \<in> set rest" using Cons.prems by simp
    then show ?thesis using Cons.IH by simp
  qed
qed

lemma bash_parse_line_other_variable:
  "\<not> bash_assigns raw name \<Longrightarrow>
   bd_variables (bash_parse_line raw st) name = bd_variables st name"
  by (auto simp: bash_parse_line_def bash_assigns_def Let_def js_set_def split: option.splits)

lemma bash_parse_lines_other_variable:
  "\<forall>raw \<in> set lines. \<not> bash_assigns raw name \<Longrightarrow>
   bd_variables (bash_parse_lines lines st) name = bd_variables st name"
  by (induction lines arbitrary: st) (simp_all add: bash_parse_line_other_variable)

lemma bash_parse_lines_append:
  "bash_parse_lines (xs @ ys) st = bash_parse_lines ys (bash_parse_lines xs st)"
  by (induction xs arbitrary: st) simp_all

text \<open>
  Claim C1, as amended. The pattern of variables is anchored at the start of the line, so
  the line \<^verbatim>\<open>export FOO="bar"\<close> is taken by no recogniser and leaves the parsed data as it
  is. For a file that has the line \<^verbatim>\<open>FOO="bar"\<close>, with no assignment to \<^verbatim>\<open>FOO\<close> on a later
  line, and the line \<^verbatim>\<open>alias ll="ls -la"\<close>, \<^verbatim>\<open>parse\<close> succeeds, \<^verbatim>\<open>variables.FOO\<close> is the
  string \<^verbatim>\<open>bar\<close> and \<^verbatim>\<open>ll\<close> is among the aliases.
\<close>

theorem bash_parse_assignment_and_alias:
  assumes "split newline (cfg_content config) = pre @ [assignment_line] @ post"
    and "list_all (\<lambda>raw. \<not> bash_assigns raw ''FOO'') post"
    and "alias_line \<in> set (split newline (cfg_content config))"
  shows "\<exists>r b. BashParser_parse config = Inr r \<and> pc_data r = OfBash b \<and>
           pc_variables r ''FOO'' = Some (JString ''bar'') \<and>
           bd_variables b ''FOO'' = Some (JString ''bar'') \<and>
           ''ll'' \<in> set (bd_aliases b) \<and>
           bash_parse_line export_line st = st"
proof -
  let ?lines = "split newline (cfg_content config)"
  let ?st0 = "\<lparr>bd_variables = Map.empty, bd_imports = [], bd_comments = [], bd_functions = [],
                bd_aliases = [], bd_lineCount = length ?lines\<rparr>"
  let ?b = "bash_parse_lines ?lines ?st0"
  have none: "\<forall>raw \<in> set post. \<not> bash_assigns raw ''FOO''"
    using assms(2) by (simp add: list_all_iff)
  have "?b = bash_parse_lines post (bash_parse_line assignment_line (bash_parse_lines pre ?st0))"
    by (simp only: assms(1) bash_parse_lines_append bash_parse_lines.simps)
  then have "bd_variables ?b ''FOO'' =
               bd_variables (bash_parse_line assignment_line (bash_parse_lines pre ?st0)) ''FOO''"
    using bash_parse_lines_other_variable[OF none] by simp
  then have v: "bd_variables ?b ''FOO'' = Some (JString ''bar'')"
    by (simp add: assignment_line_parsed)
  have a: "''ll'' \<in> set (bd_aliases ?b)"
    using assms(3) by (rule alias_line_found)
  have p: "BashParser_parse config =
             Inr \<lparr>pc_data = OfBash ?b, pc_variables = bd_variables ?b, pc_imports = bd_imports ?b,
                  pc_comments = bd_comments ?b, pc_validation = validation_literal\<rparr>"
    by (simp add: BashParser_parse_def BashParser_validate_def Let_def)
  show ?thesis
    using p v a export_line_ignored[of st] by simp
qed

lemma split_export_alias:
  "split newline (export_alias_content) = [export_line, alias_line]"
  by (simp add: export_alias_content_def export_line_def alias_line_def)

text \<open>
  Claim C1 as stated fails on the file of the two lines \<^verbatim>\<open>export FOO="bar"\<close> and
  \<^verbatim>\<open>alias ll="ls -la"\<close>: \<^verbatim>\<open>parse\<close> succeeds and finds the alias, but \<^verbatim>\<open>variables\<close> is
  empty.
\<close>

theorem export_assignment_counterexample:
  "export_line \<in> set (split newline (export_alias_content)) \<and>
   alias_line \<in> set (split newline (export_alias_content)) \<and>
   BashParser_parse (config_of (export_alias_content)) =
     Inr \<lparr>pc_data = OfBash \<lparr>bd_variables = Map.empty, bd_imports = [], bd_comments = [],
                             bd_functions = [], bd_aliases = [''ll''], bd_lineCount = 2\<rparr>,
          pc_variables = Map.empty, pc_imports = [], pc_comments = [],
          pc_validation = validation_literal\<rparr>"
proof -
  have c: "cfg_content (config_of (export_alias_content)) =
             export_alias_content"
    by (simp add: config_of_def)
  have "BashParser_parse (config_of (export_alias_content)) =
     Inr \<lparr>pc_data = OfBash \<lparr>bd_variables = Map.empty, bd_imports = [], bd_comments = [],
                             bd_functions = [], bd_aliases = [''ll''], bd_lineCount = 2\<rparr>,
          pc_variables = Map.empty, pc_imports = [], pc_comments = [],
          pc_validation = validation_literal\<rparr>"
    unfolding BashParser_parse_def BashParser_validate_def Let_def c split_export_alias
    by (simp add: export_line_ignored alias_line_parsed)
  then show ?thesis by (simp add: split_export_alias)
qed

lemma split_export_assignment_alias:
  "split newline (assignment_alias_content) =
     [export_line, assignment_line, alias_line]"
  by (simp add: assignment_alias_content_def export_line_def assignment_line_def alias_line_def)

text \<open>The file of the three lines: the exported assignment, the assignment, the alias.\<close>

theorem bash_parse_assignment_and_alias_witness:
  "split newline (assignment_alias_content) =
     [export_line] @ [assignment_line] @ [alias_line] \<and>
   list_all (\<lambda>raw. \<not> bash_assigns raw ''FOO'') [alias_line] \<and>
   alias_line \<in> set (split newline (assignment_alias_content)) \<and>
   (\<exists>r b. BashParser_parse
             (config_of (assignment_alias_content)) = Inr r \<and>
          pc_data r = OfBash b \<and>
          pc_variables r ''FOO'' = Some (JString ''bar'') \<and>
          ''ll'' \<in> set (bd_aliases b))"
proof -
  let ?c = "assignment_alias_content"
  have c: "cfg_content (config_of ?c) = ?c" by (simp add: config_of_def)
  have s: "split newline (cfg_content (config_of ?c)) = [export_line] @ [assignment_line] @ [alias_line]"
    by (simp add: c split_export_assignment_alias)
  have n: "list_all (\<lambda>raw. \<not> bash_assigns raw ''FOO'') [alias_line]"
    by (simp add: bash_assigns_def trim_alias alias_var)
  have a: "alias_line \<in> set (split newline (cfg_content (config_of ?c)))"
    by (simp add: s)
  have "\<exists>r b. BashParser_parse (config_of ?c) = Inr r \<and> pc_data r = OfBash b \<and>
          pc_variables r ''FOO'' = Some (JString ''bar'') \<and>
          ''ll'' \<in> set (bd_aliases b)"
    using bash_parse_assignment_and_alias[OF s n a] by blast
  then show ?thesis using s n a unfolding c by blast
qed

subsection \<open>Validation\<close>

text \<open>
  Claim C6. For each of the four parsers and every text, \<^verbatim>\<open>validate\<close> returns a result,
  and in it \<^verbatim>\<open>isValid\<close> is false exactly when the list of errors is not empty: the
  warnings and the suggestions have no part in it.
\<close>

theorem validate_isValid_iff_no_errors:
  "\<exists>r. validate p content = Inr r \<and> (\<not> isValid r \<longleftrightarrow> errors r \<noteq> [])"
proof (cases p)
  case BashParser
  then show ?thesis
    by (simp add: BashParser_validate_def validation_of_def split: prod.splits)
next
  case VimParser
  then show ?thesis
    by (simp add: VimParser_validate_def validation_of_def split: prod.splits)
next
  case GitParser
  then show ?thesis
    by (simp add: GitParser_validate_def validation_of_def split: prod.splits)
next
  case (SimpleParser t)
  then show ?thesis
    by (simp add: SimpleParser_validate_def)
qed

lemma decimal_1: "decimal (Suc 0) = ''1''"
  by (simp add: decimal.simps char_of_eq_iff)

lemma decimal_2: "decimal (Suc (Suc 0)) = ''2''"
  by (simp add: decimal.simps char_of_eq_iff)

lemma decimal_3: "decimal (Suc (Suc (Suc 0))) = ''3''"
  by (simp add: decimal.simps char_of_eq_iff)

lemma validate_unclosed_backtick:
  "BashParser_validate unclosed_backtick_content =
     Inr \<lparr>isValid = False, errors = [''Line 1: Unclosed command substitution''],
          warnings = [], suggestions = []\<rparr>"
  by (simp add: BashParser_validate_def validation_of_def bash_validate_line_def line_message_def
      decimal_1 unclosed_backtick_content_def)

lemma validate_sudo:
  "BashParser_validate ''sudo reboot'' =
     Inr \<lparr>isValid = True, errors = [],
          warnings = [''Line 1: Sudo command may require password input''], suggestions = []\<rparr>"
  by (simp add: BashParser_validate_def validation_of_def bash_validate_line_def line_message_def
      decimal_1 unclosed_backtick_content_def)

text \<open>
  An unclosed command substitution is an error and makes the text invalid; a \<^verbatim>\<open>sudo\<close>
  command is a warning and leaves it valid.
\<close>

theorem validate_isValid_iff_no_errors_witness:
  "validate BashParser unclosed_backtick_content =
     Inr \<lparr>isValid = False, errors = [''Line 1: Unclosed command substitution''],
          warnings = [], suggestions = []\<rparr> \<and>
   validate BashParser ''sudo reboot'' =
     Inr \<lparr>isValid = True, errors = [],
          warnings = [''Line 1: Sudo command may require password input''], suggestions = []\<rparr>"
  using validate_isValid_iff_no_errors[of BashParser unclosed_backtick_content]
    validate_isValid_iff_no_errors[of BashParser "''sudo reboot''"]
  by (simp add: validate_unclosed_backtick validate_sudo)

text \<open>
  Claim C8. For each of the four parsers, the \<^verbatim>\<open>validation\<close> of a result of \<^verbatim>\<open>parse\<close> is
  the literal \<^verbatim>\<open>{isValid: true, errors: [], warnings: [], suggestions: []}\<close>: what
  \<^verbatim>\<open>validate\<close> returned is only tested for failure.
\<close>

theorem parse_validation_is_literal:
  "parse engine p config = Inr r \<longrightarrow>
     pc_validation r = \<lparr>isValid = True, errors = [], warnings = [], suggestions = []\<rparr>"
proof (cases p)
  case BashParser
  then show ?thesis
    by (auto simp: BashParser_parse_def BashParser_validate_def Let_def validation_literal_def)
next
  case VimParser
  then show ?thesis
    by (auto simp: VimParser_parse_def VimParser_validate_def Let_def validation_literal_def
        split: prod.splits)
next
  case GitParser
  then show ?thesis
    by (auto simp: GitParser_parse_def GitParser_validate_def Let_def validation_literal_def
        split: sum.splits)
next
  case (SimpleParser t)
  then show ?thesis
    by (auto simp: SimpleParser_parse_def Let_def validation_literal_def)
qed

text \<open>
  The text with the unclosed command substitution: \<^verbatim>\<open>validate\<close> reports the error, and
  the result of \<^verbatim>\<open>parse\<close> says valid, with no error.
\<close>

theorem parse_validation_is_literal_witness:
  "validate BashParser (cfg_content (config_of unclosed_backtick_content)) =
     Inr \<lparr>isValid = False, errors = [''Line 1: Unclosed command substitution''],
          warnings = [], suggestions = []\<rparr> \<and>
   (\<exists>r. parse example_engine BashParser (config_of unclosed_backtick_content) = Inr r \<and>
        pc_validation r = \<lparr>isValid = True, errors = [], warnings = [], suggestions = []\<rparr>)"
proof -
  let ?config = "config_of unclosed_backtick_content"
  have v: "validate BashParser (cfg_content ?config) =
     Inr \<lparr>isValid = False, errors = [''Line 1: Unclosed command substitution''],
          warnings = [], suggestions = []\<rparr>"
    using validate_unclosed_backtick by (simp add: config_of_def)
  obtain r where r: "parse example_engine BashParser ?config = Inr r"
    by (simp add: BashParser_parse_def BashParser_validate_def Let_def)
  then have "pc_validation r = \<lparr>isValid = True, errors = [], warnings = [], suggestions = []\<rparr>"
    using parse_validation_is_literal[of example_engine BashParser ?config r] by blast
  with v r show ?thesis by blast
qed

text \<open>
  Claim C7 does not hold of the code. \<^verbatim>\<open>VimParser.validate\<close> looks for
  \<^verbatim>\<open>call plug#begin\<close> in the line of the plugin itself, not in the file: in a file whose
  first line is \<^verbatim>\<open>call plug#begin()\<close>, the \<^verbatim>\<open>Plug\<close> line on line 2 still gets the warning
  \<^verbatim>\<open>Plugin without plug#begin()\<close>.
\<close>

theorem vim_plugin_warning_with_plug_begin:
  "VimParser_validate
     plug_begin_content =
     Inr \<lparr>isValid = True, errors = [],
          warnings = [''Line 2: Plugin without plug#begin() - ensure vim-plug is installed''],
          suggestions = []\<rparr>"
  by (simp add: VimParser_validate_def validation_of_def vim_validate_line_def line_message_def
      decimal_1 decimal_2 decimal_3 plug_begin_content_def)

subsection \<open>The plugin warning of \<^verbatim>\<open>VimParser.validate\<close>\<close>

lemma vim_validate_line_warnings:
  "set (fst (snd acc)) \<subseteq> set (fst (snd (vim_validate_line line n acc)))"
  by (cases acc) (auto simp: vim_validate_line_def Let_def)

lemma vim_validate_lines_warnings:
  "set (fst (snd acc)) \<subseteq> set (fst (snd (validate_lines vim_validate_line lines i acc)))"
proof (induction lines arbitrary: i acc)
  case Nil
  then show ?case by simp
next
  case (Cons line rest)
  have "set (fst (snd acc)) \<subseteq> set (fst (snd (vim_validate_line line (i + 1) acc)))"
    by (rule vim_validate_line_warnings)
  also have "\<dots> \<subseteq> set (fst (snd (validate_lines vim_validate_line rest (i + 1)
                                      (vim_validate_line line (i + 1) acc))))"
    by (rule Cons.IH)
  finally show ?case by simp
qed

lemma validate_lines_append:
  "validate_lines body (xs @ ys) i acc =
     validate_lines body ys (i + length xs) (validate_lines body xs i acc)"
  by (induction xs arbitrary: i acc) simp_all

lemma vim_validate_line_plug:
  "str_includes line ''Plug'' \<Longrightarrow> \<not> str_includes line ''call plug#begin'' \<Longrightarrow>
   line_message n ''Plugin without plug#begin() - ensure vim-plug is installed''
     \<in> set (fst (snd (vim_validate_line line n acc)))"
  by (cases acc) (simp add: vim_validate_line_def Let_def)

text \<open>
  The warning of a line depends on that line alone: every line that contains \<^verbatim>\<open>Plug\<close>
  and not \<^verbatim>\<open>call plug#begin\<close> gets it, whatever the other lines of the file are.
\<close>

lemma vim_plugin_warning_is_line_local:
  assumes "split newline content = pre @ [line] @ post"
    and "str_includes line ''Plug''"
    and "\<not> str_includes line ''call plug#begin''"
  shows "\<exists>r. VimParser_validate content = Inr r \<and>
           line_message (length pre + 1)
             ''Plugin without plug#begin() - ensure vim-plug is installed'' \<in> set (warnings r)"
proof -
  let ?msg = "line_message (length pre + 1)
                ''Plugin without plug#begin() - ensure vim-plug is installed''"
  let ?a = "validate_lines vim_validate_line pre 0 ([], [], [])"
  let ?b = "vim_validate_line line (length pre + 1) ?a"
  let ?c = "validate_lines vim_validate_line post (length pre + 1) ?b"
  have all: "validate_lines vim_validate_line (split newline content) 0 ([], [], []) = ?c"
    by (simp add: assms(1) validate_lines_append)
  have "?msg \<in> set (fst (snd ?b))"
    using assms(2,3) by (rule vim_validate_line_plug)
  then have "?msg \<in> set (fst (snd ?c))"
    using vim_validate_lines_warnings[of ?b post "length pre + 1"] by blast
  then have "?msg \<in> set (warnings (validation_of ?c))"
    by (cases ?c) (simp add: validation_of_def)
  then show ?thesis
    by (simp add: VimParser_validate_def all)
qed

subsection \<open>\<^verbatim>\<open>GitParser.parse\<close> and what \<^verbatim>\<open>sections\<close> inherits\<close>

text \<open>
  Under \<^verbatim>\<open>[constructor]\<close> the line \<^verbatim>\<open>name=x\<close> assigns to the \<^verbatim>\<open>name\<close> of the function
  \<^verbatim>\<open>Object\<close>, which is read-only: the loop throws, and \<^verbatim>\<open>parse\<close> returns the failure.
\<close>

lemma git_header_constructor:
  "git_parse_line engine ''[constructor]'' st =
     Inr (st\<lparr>gs_currentSection := ''constructor'',
              gs_sections := (if \<not> has_section engine st ''constructor''
                              then (gs_sections st)(''constructor'' \<mapsto> Map.empty) else gs_sections st)\<rparr>)"
  by (simp add: git_parse_line_def trim_def git_sectionRegex_def regex_eval)

lemma git_name_x:
  "match ''name=x'' git_kvRegex = Some [1 \<mapsto> ''name'', 2 \<mapsto> ''x'']"
  by (simp add: git_kvRegex_def regex_eval)

lemma git_name_x_section: "match ''name=x'' git_sectionRegex = None"
  by (simp add: git_sectionRegex_def regex_eval)

lemma parseValue_x: "GitParser_parseValue ''x'' = JString ''x''"
  by (simp add: GitParser_parseValue_def trim_def isWhiteSpace_def isNaN_Number_def
      StrDecimalLiteral_def NonDecimalIntegerLiteral_def ExponentPart_def regex_eval endsWith_def)

lemma git_read_only_key:
  assumes "gs_currentSection st = ''constructor''" "gs_sections st ''constructor'' = None"
    "gs_prototype st ''constructor'' = None"
  shows "git_parse_line engine ''name=x'' st =
     Inl (TypeError (assignment_message engine (Some (BuiltIn ''constructor'')) ''name''))"
  using assms
  by (simp add: git_parse_line_def trim_def isWhiteSpace_def git_name_x git_name_x_section group_def
      parseValue_x Let_def inherited_member_def Object_prototype_def read_only_def)

lemma split_constructor_name:
  "split newline constructor_name_content = [''[constructor]'', ''name=x'']"
  by (simp add: constructor_name_content_def split_def)

lemma GitParser_parse_read_only:
  "GitParser_parse engine (config_of constructor_name_content) =
     Inl (TypeError (assignment_message engine (Some (BuiltIn ''constructor'')) ''name''))"
  by (simp add: GitParser_parse_def config_of_def split_constructor_name git_header_constructor
      has_section_def inherited_member_def Object_prototype_def git_read_only_key)

text \<open>
  Under \<^verbatim>\<open>[__proto__]\<close> the line \<^verbatim>\<open>foo=1\<close> gives \<^verbatim>\<open>Object.prototype\<close> the property
  \<^verbatim>\<open>foo\<close>; \<^verbatim>\<open>[foo]\<close> then finds the number, makes no entry, and \<^verbatim>\<open>bar=2\<close> assigns to a
  property of a number: \<^verbatim>\<open>parse\<close> returns the failure. Under \<^verbatim>\<open>[user]\<close>, a section with an
  entry of its own, the key is stored, with the space that follows it.
\<close>

lemma git_header:
  "name \<in> set [''__proto__'', ''foo'', ''user''] \<Longrightarrow>
   git_parse_line engine (''['' @ name @ '']'') st =
     Inr (st\<lparr>gs_currentSection := name,
              gs_sections := (if \<not> has_section engine st name
                              then (gs_sections st)(name \<mapsto> Map.empty) else gs_sections st)\<rparr>)"
  by (auto simp: git_parse_line_def trim_def git_sectionRegex_def regex_eval)

lemma kv_foo: "match ''foo=1'' git_kvRegex = Some [1 \<mapsto> ''foo'', 2 \<mapsto> ''1'']"
  by (simp add: git_kvRegex_def regex_eval)

lemma kv_bar: "match ''bar=2'' git_kvRegex = Some [1 \<mapsto> ''bar'', 2 \<mapsto> ''2'']"
  by (simp add: git_kvRegex_def regex_eval)

lemma kv_name: "match ''name = x'' git_kvRegex = Some [1 \<mapsto> ''name '', 2 \<mapsto> ''x'']"
  by (simp add: git_kvRegex_def regex_eval)

lemma not_sections:
  "match ''foo=1'' git_sectionRegex = None" "match ''bar=2'' git_sectionRegex = None"
  "match ''name = x'' git_sectionRegex = None"
  by (simp_all add: git_sectionRegex_def regex_eval)

lemma parseValue_digit:
  "GitParser_parseValue ''1'' = JNumber ''1''" "GitParser_parseValue ''2'' = JNumber ''2''"
  by (simp_all add: GitParser_parseValue_def trim_def isWhiteSpace_def isNaN_Number_def
      StrDecimalLiteral_def NonDecimalIntegerLiteral_def ExponentPart_def regex_eval endsWith_def)

lemma split_proto:
  "split newline proto_content = [''[__proto__]'', ''foo=1'', ''[foo]'', ''bar=2'']"
  by (simp add: proto_content_def split_def)

lemma split_user: "split newline user_content = [''[user]'', ''name = x'']"
  by (simp add: user_content_def split_def)

lemma GitParser_parse_written_member:
  assumes "\<not> number_is_zero engine ''1''"
  shows "GitParser_parse engine (config_of proto_content) =
     Inl (TypeError (assignment_message engine (Some (Primitive (JNumber ''1''))) ''bar''))"
  using assms git_header[of "''__proto__''"] git_header[of "''foo''"]
  by (simp add: GitParser_parse_def config_of_def split_proto
      has_section_def inherited_member_def Object_prototype_def git_parse_line_def trim_def
      isWhiteSpace_def kv_foo kv_bar not_sections group_def parseValue_digit Let_def js_set_def
      ToBoolean_def)

lemma GitParser_parse_user:
  "GitParser_parse engine (config_of user_content) =
     Inr \<lparr>pc_data = OfGit \<lparr>gd_sections = [''user'' \<mapsto> [''name '' \<mapsto> JString ''x'']],
                           gd_aliases = Map.empty, gd_remotes = Map.empty, gd_lineCount = 2\<rparr>,
          pc_variables = Map.empty, pc_imports = [], pc_comments = [],
          pc_validation = validation_literal\<rparr>"
  using git_header[of "''user''"]
  by (simp add: GitParser_parse_def config_of_def split_user GitParser_validate_def
      has_section_def inherited_member_def Object_prototype_def git_parse_line_def trim_def
      isWhiteSpace_def kv_name not_sections group_def parseValue_x Let_def js_set_def)

end
